theory Spec2Isabelle
  imports Complex_Main "HOL-Library.Char_ord" "HOL-Library.List_Lexorder" "HOL-Library.AList"
begin

section \<open>Result tables\<close>

text \<open>
  The result visualizer (\<^verbatim>\<open>visualize-results.py\<close>) reads CSV files into pandas data frames.
  A row of such a table is one trial of an experiment. The cells the scripts tolerate as missing
  (the network profile, the network delay columns and the failure flag) are options, with
  \<open>None\<close> for pandas' NaN; the four measurement columns are taken as populated wherever
  the column exists, and floating-point numbers are modelled by rationals. A data frame is
  its list of column names together with its rows: a field of a row is only read after
  the column name has been found in \<open>columns\<close>, as pandas raises \<open>KeyError\<close> otherwise.
\<close>

record trial =
  networkProfile :: "string option"
  nodeNum :: int
  byzantinePercentage :: rat
  meanTime :: rat
  stdTime :: rat
  networkMean :: "rat option"
  networkStd :: "rat option"
  failure :: "bool option"

record DataFrame =
  columns :: "string list"
  rows :: "trial list"

datatype error =
    KeyError string
  | IndexError
  | TypeError
  | ValueError
  | FileNotFoundError string
  | IsADirectoryError string
  | NotADirectoryError string
  | FileExistsError string
  | ParserError string

text \<open>Sequencing of fallible steps: the first exception raised ends the computation.\<close>

definition and_then :: "error + 'a \<Rightarrow> ('a \<Rightarrow> error + 'b) \<Rightarrow> error + 'b" where
  "and_then m f = (case m of Inl e \<Rightarrow> Inl e | Inr v \<Rightarrow> f v)"

fun for_each :: "('a \<Rightarrow> error + 'b) \<Rightarrow> 'a list \<Rightarrow> error + 'b list" where
  "for_each f [] = Inr []"
| "for_each f (x # xs) = and_then (f x) (\<lambda>y. and_then (for_each f xs) (\<lambda>ys. Inr (y # ys)))"

text \<open>\<^verbatim>\<open>data[name]\<close>: the column as a list of cells, or \<open>KeyError\<close>.\<close>

definition col :: "string \<Rightarrow> (trial \<Rightarrow> 'a) \<Rightarrow> DataFrame \<Rightarrow> error + 'a list" where
  "col name field data =
     (if name \<in> set (columns data) then Inr (map field (rows data)) else Inl (KeyError name))"

text \<open>\<^verbatim>\<open>Series.unique()\<close> keeps the first occurrence of every value, in order of appearance.\<close>

definition unique :: "'a list \<Rightarrow> 'a list" where
  "unique xs = rev (remdups (rev xs))"

text \<open>
  \<^verbatim>\<open>data[mask]\<close> with a boolean mask computed row by row, and
  \<^verbatim>\<open>sort_values('nodeNum')\<close>, which raises \<open>KeyError\<close> when the column is missing. pandas
  sorts with its default \<^verbatim>\<open>quicksort\<close>, which orders the rows by node count and leaves the
  order of rows with the same node count open. The model takes the stable order for them,
  which pandas does not promise.
\<close>

definition select :: "(trial \<Rightarrow> bool) \<Rightarrow> DataFrame \<Rightarrow> DataFrame" where
  "select keep data = data\<lparr>rows := filter keep (rows data)\<rparr>"

definition sort_values_nodeNum :: "DataFrame \<Rightarrow> error + DataFrame" where
  "sort_values_nodeNum data =
     (if ''nodeNum'' \<in> set (columns data) then Inr (data\<lparr>rows := sort_key nodeNum (rows data)\<rparr>)
      else Inl (KeyError ''nodeNum''))"

text \<open>
  The failure filter, written out identically at the head of every chart function:
  \<^verbatim>\<open>if 'failure' in data.columns: data = data[~data['failure'].fillna(False)]\<close>.
  What it computes for a column with a missing value depends on the release of pandas.
  Such a column is read with dtype \<open>object\<close>. Up to pandas 2 \<^verbatim>\<open>fillna(False)\<close> casts the
  filled column down to \<open>bool\<close>, the mask is its negation, and a missing value counts as
  false: this is \<open>filter_failed\<close>, the filter the chart functions below are written with.
  From pandas 3 on the filled column keeps dtype \<open>object\<close>, \<^verbatim>\<open>~\<close> turns \<open>True\<close> and
  \<open>False\<close> into the integers \<open>-2\<close> and \<open>-1\<close>, and \<^verbatim>\<open>data[...]\<close> looks these integers up
  as column labels and raises \<open>KeyError\<close>. A column without a missing value is read as
  \<open>bool\<close>, and both releases compute the same. \<open>failure_filter\<close> is the statement for
  either release.
\<close>

definition fillna_False :: "bool option \<Rightarrow> bool" where
  "fillna_False v = (case v of None \<Rightarrow> False | Some b \<Rightarrow> b)"

definition filter_failed :: "DataFrame \<Rightarrow> DataFrame" where
  "filter_failed data =
     (if ''failure'' \<in> set (columns data)
      then select (\<lambda>r. \<not> fillna_False (failure r)) data
      else data)"



section \<open>Files and paths\<close>

text \<open>
  The file system is a finite list of distinct paths with what is stored there; its order is
  the order in which \<^verbatim>\<open>os.listdir\<close> reports entries. A CSV file is represented by the
  table \<^verbatim>\<open>pd.read_csv\<close> parses from it, a file that cannot be parsed by \<open>Unreadable\<close>, and
  a written image by the figure it shows. Of a figure the model keeps what is computed from
  the table: every data artist with the rows of the frame whose columns it plots, the
  network named in a title and the delays printed there. Reference lines, annotations,
  legends, colours and axis limits are left out.
\<close>

datatype artist =
    errorbar rat nat bool "trial list"
  | plot_time_per_node rat nat "trial list"
  | scatter rat nat nat bool "trial list"
  | plot3d nat "trial list"
  | text_no_data

datatype delay = Unknown | Delay "rat option"

datatype title = Untitled | Network "string option"

record axes =
  artists :: "artist list"
  title_name :: title
  mean_delay :: delay
  std_delay :: delay

record pivot =
  index :: "int list"
  pcolumns :: "rat list"
  cells :: "((int \<times> rat) \<times> rat) list"

record bar =
  bar_x :: rat
  height :: rat
  bar_width :: rat
  color :: string
  yerr :: rat
  f_label :: nat

datatype figure = Chart "axes list" | Heatmap pivot delay delay | BarChart "bar list"

datatype node = Dir | Csv DataFrame | Unreadable | Png figure

record world =
  fs :: "(string \<times> node) list"
  stdout :: "string list"

definition RESULTS_DIR :: string where "RESULTS_DIR = ''results''"
definition OUTPUT_DIR :: string where "OUTPUT_DIR = ''visualizations''"

text \<open>
  A statement of a script acts on the world and either yields a value or raises an
  exception. What was printed and written before an exception stays printed and written,
  so the world is returned in both cases.
\<close>

type_synonym 'a io = "world \<Rightarrow> (error + 'a) \<times> world"

definition pure :: "'a \<Rightarrow> 'a io" where
  "pure v = (\<lambda>w. (Inr v, w))"

definition lift :: "error + 'a \<Rightarrow> 'a io" where
  "lift m = (\<lambda>w. (m, w))"

definition then_do :: "'a io \<Rightarrow> ('a \<Rightarrow> 'b io) \<Rightarrow> 'b io" where
  "then_do m f = (\<lambda>w. case m w of (Inl e, w') \<Rightarrow> (Inl e, w') | (Inr v, w') \<Rightarrow> f v w')"

text \<open>Printed messages are kept in ASCII: the check mark of the closing messages is dropped.\<close>

definition print :: "string \<Rightarrow> unit io" where
  "print msg = (\<lambda>w. (Inr (), w\<lparr>stdout := stdout w @ [msg]\<rparr>))"

text \<open>\<^verbatim>\<open>s.endswith(suf)\<close> and \<^verbatim>\<open>sub in s\<close> on strings.\<close>

definition endswith :: "string \<Rightarrow> string \<Rightarrow> bool" where
  "endswith s suf = (length suf \<le> length s \<and> drop (length s - length suf) s = suf)"

fun contains :: "string \<Rightarrow> string \<Rightarrow> bool" where
  "contains sub [] = (sub = [])"
| "contains sub (c # s) = (take (length sub) (c # s) = sub \<or> contains sub s)"

text \<open>\<^verbatim>\<open>s.rfind(c)\<close>: the index of the last occurrence, \<open>None\<close> for Python's \<open>-1\<close>.\<close>

definition rfind :: "char \<Rightarrow> string \<Rightarrow> nat option" where
  "rfind c s =
     (if c \<in> set s then Some (length s - 1 - length (takeWhile (\<lambda>x. x \<noteq> c) (rev s))) else None)"

text \<open>
  \<^verbatim>\<open>os.path.splitext(p)[0]\<close>: the path up to its last dot, unless that dot comes before the
  last separator or only dots precede it in the file name.
\<close>

definition splitext_root :: "string \<Rightarrow> string" where
  "splitext_root p =
     (case rfind (CHR ''.'') p of
        None \<Rightarrow> p
      | Some dotIndex \<Rightarrow>
          (let filenameIndex = (case rfind (CHR ''/'') p of None \<Rightarrow> 0 | Some sepIndex \<Rightarrow> sepIndex + 1) in
           if dotIndex < filenameIndex then p
           else if filter (\<lambda>c. c \<noteq> CHR ''.'') (take (dotIndex - filenameIndex) (drop filenameIndex p)) \<noteq> []
           then take dotIndex p
           else p))"

text \<open>\<^verbatim>\<open>os.path.join\<close> of two components (POSIX): an absolute second component replaces the first.\<close>

definition os_path_join :: "string \<Rightarrow> string \<Rightarrow> string" where
  "os_path_join a b =
     (if take 1 b = ''/'' then b
      else if a = [] \<or> last a = CHR ''/'' then a @ b
      else a @ ''/'' @ b)"

text \<open>\<^verbatim>\<open>os.path.dirname\<close>: everything up to the last separator, trailing separators stripped
  unless nothing else is left.\<close>

definition os_path_dirname :: "string \<Rightarrow> string" where
  "os_path_dirname p =
     (let head = rev (dropWhile (\<lambda>c. c \<noteq> CHR ''/'') (rev p)) in
      if filter (\<lambda>c. c \<noteq> CHR ''/'') head \<noteq> []
      then rev (dropWhile (\<lambda>c. c = CHR ''/'') (rev head))
      else head)"

definition os_path_exists :: "world \<Rightarrow> string \<Rightarrow> bool" where
  "os_path_exists w p = (map_of (fs w) p \<noteq> None)"

text \<open>\<^verbatim>\<open>os.listdir(d)\<close>: the names stored directly under \<open>d\<close>.\<close>

definition is_entry_of :: "string \<Rightarrow> string \<Rightarrow> bool" where
  "is_entry_of d p =
     (take (length d + 1) p = d @ ''/'' \<and> length d + 1 < length p
      \<and> CHR ''/'' \<notin> set (drop (length d + 1) p))"

definition os_listdir :: "world \<Rightarrow> string \<Rightarrow> error + string list" where
  "os_listdir w d =
     (case map_of (fs w) d of
        None \<Rightarrow> Inl (FileNotFoundError d)
      | Some Dir \<Rightarrow> Inr (map (drop (length d + 1)) (filter (is_entry_of d) (map fst (fs w))))
      | Some _ \<Rightarrow> Inl (NotADirectoryError d))"

definition os_makedirs :: "string \<Rightarrow> unit io" where
  "os_makedirs d =
     (\<lambda>w. if os_path_exists w d then (Inl (FileExistsError d), w)
          else (Inr (), w\<lparr>fs := fs w @ [(d, Dir)]\<rparr>))"

definition read_csv :: "world \<Rightarrow> string \<Rightarrow> error + DataFrame" where
  "read_csv w p =
     (case map_of (fs w) p of
        Some (Csv t) \<Rightarrow> Inr t
      | Some Dir \<Rightarrow> Inl (IsADirectoryError p)
      | Some _ \<Rightarrow> Inl (ParserError p)
      | None \<Rightarrow> Inl (FileNotFoundError p))"

text \<open>
  \<^verbatim>\<open>plt.savefig(path)\<close> writes the image at \<open>path\<close>; the directory of the path must exist
  (an empty directory part is the working directory).
\<close>

definition savefig :: "string \<Rightarrow> figure \<Rightarrow> unit io" where
  "savefig path fig =
     (\<lambda>w. let d = os_path_dirname path in
          if d \<noteq> [] \<and> map_of (fs w) d = None then (Inl (FileNotFoundError path), w)
          else if d \<noteq> [] \<and> map_of (fs w) d \<noteq> Some Dir then (Inl (NotADirectoryError path), w)
          else if map_of (fs w) path = Some Dir then (Inl (IsADirectoryError path), w)
          else (Inr (), w\<lparr>fs := AList.update path (Png fig) (fs w)\<rparr>))"

text \<open>
  \<^verbatim>\<open>if not os.path.exists(OUTPUT_DIR): os.makedirs(OUTPUT_DIR)\<close>, run when the module is
  loaded and again at the start of \<open>main\<close>.
\<close>

definition ensure_output_dir :: "unit io" where
  "ensure_output_dir =
     (\<lambda>w. if \<not> os_path_exists w OUTPUT_DIR then os_makedirs OUTPUT_DIR w else (Inr (), w))"

text \<open>
  \<^verbatim>\<open>load_data(filename)\<close>: a missing file prints a warning and yields \<open>None\<close>; an existing
  one is handed to \<^verbatim>\<open>pd.read_csv\<close>.
\<close>

definition load_data :: "string \<Rightarrow> DataFrame option io" where
  "load_data filename =
     (\<lambda>w. let filepath = os_path_join RESULTS_DIR filename in
          if \<not> os_path_exists w filepath
          then then_do (print (''Warning: File not found: '' @ filepath)) (\<lambda>_. pure None) w
          else lift (and_then (read_csv w filepath) (\<lambda>t. Inr (Some t))) w)"

section \<open>Selecting and grouping rows\<close>

definition require :: "string \<Rightarrow> DataFrame \<Rightarrow> error + unit" where
  "require name data = (if name \<in> set (columns data) then Inr () else Inl (KeyError name))"

text \<open>\<^verbatim>\<open>data[data['byzantinePercentage'] == percentage]\<close>.\<close>

definition where_percentage :: "rat \<Rightarrow> DataFrame \<Rightarrow> error + DataFrame" where
  "where_percentage percentage data =
     and_then (require ''byzantinePercentage'' data) (\<lambda>_.
       Inr (select (\<lambda>r. byzantinePercentage r = percentage) data))"

text \<open>
  \<^verbatim>\<open>data[data['networkProfile'] == profile]\<close>: a missing cell equals nothing, and the
  missing value \<open>None\<close> taken as \<open>profile\<close> selects no row.
\<close>

definition where_profile :: "string option \<Rightarrow> DataFrame \<Rightarrow> error + DataFrame" where
  "where_profile profile data =
     and_then (require ''networkProfile'' data) (\<lambda>_.
       Inr (select (\<lambda>r. profile \<noteq> None \<and> networkProfile r = profile) data))"

text \<open>
  \<^verbatim>\<open>sorted(all_data['networkProfile'].unique())\<close>: Python cannot order a string against
  the float NaN, so a missing profile among other values raises \<open>TypeError\<close>.
\<close>

definition sorted_profiles :: "string option list \<Rightarrow> error + string option list" where
  "sorted_profiles ps =
     (if None \<in> set ps \<and> 1 < length ps then Inl TypeError
      else if None \<in> set ps then Inr ps
      else Inr (map Some (sort (map the ps))))"

definition network_profiles_of :: "DataFrame \<Rightarrow> error + string option list" where
  "network_profiles_of data =
     and_then (col ''networkProfile'' networkProfile data) (\<lambda>np. sorted_profiles (unique np))"

definition byzantine_percentages_of :: "DataFrame \<Rightarrow> error + rat list" where
  "byzantine_percentages_of data =
     and_then (col ''byzantinePercentage'' byzantinePercentage data) (\<lambda>bp. Inr (sort (unique bp)))"

text \<open>
  \<^verbatim>\<open>data[name].iloc[0] if name in data.columns else 'Unknown'\<close>, the delay printed in a
  title; \<^verbatim>\<open>iloc[0]\<close> raises \<open>IndexError\<close> on a frame without rows.
\<close>

definition title_delay :: "string \<Rightarrow> (trial \<Rightarrow> rat option) \<Rightarrow> DataFrame \<Rightarrow> error + delay" where
  "title_delay name field data =
     (if name \<in> set (columns data)
      then (case rows data of [] \<Rightarrow> Inl IndexError | r # _ \<Rightarrow> Inr (Delay (field r)))
      else Inr Unknown)"

text \<open>\<^verbatim>\<open>f"{profile}"\<close>: a missing profile prints as \<open>nan\<close>.\<close>

definition profile_str :: "string option \<Rightarrow> string" where
  "profile_str profile = (case profile of None \<Rightarrow> ''nan'' | Some name \<Rightarrow> name)"

section \<open>Chart functions of the result visualizer\<close>

text \<open>
  The body of the loop over Byzantine percentages shared by \<open>plot_byzantine_impact\<close> and
  \<open>create_combined_visualization\<close>: the rows of one percentage sorted by node count, skipped
  when there are none, otherwise drawn as one line with error bars. The marker is
  \<^verbatim>\<open>markers[i % len(markers)]\<close> of seven markers.
\<close>

definition errorbar_line :: "DataFrame \<Rightarrow> bool \<Rightarrow> nat \<times> rat \<Rightarrow> error + artist list" where
  "errorbar_line data labelled = (\<lambda>(i, percentage).
     and_then (where_percentage percentage data) (\<lambda>selected.
     and_then (sort_values_nodeNum selected) (\<lambda>percentage_data.
       if length (rows percentage_data) = 0 then Inr []
       else
         and_then (require ''nodeNum'' percentage_data) (\<lambda>_.
         and_then (require ''meanTime'' percentage_data) (\<lambda>_.
         and_then (require ''stdTime'' percentage_data) (\<lambda>_.
           Inr [errorbar percentage (i mod 7) labelled (rows percentage_data)]))))))"

text \<open>\<open>plot_byzantine_impact(data, output_filename)\<close>, first the figure, then the file.\<close>

definition byzantine_impact_figure :: "DataFrame \<Rightarrow> string \<Rightarrow> error + figure" where
  "byzantine_impact_figure data0 output_filename =
     (let data = filter_failed data0 in
      and_then (byzantine_percentages_of data) (\<lambda>byzantine_percentages.
      and_then (for_each (errorbar_line data True) (enumerate 0 byzantine_percentages)) (\<lambda>lines.
      and_then (require ''nodeNum'' data) (\<lambda>_.
      and_then (require ''meanTime'' data) (\<lambda>_.
      let network_name = takeWhile (\<lambda>c. c \<noteq> CHR ''_'') output_filename in
      and_then (title_delay ''networkMean'' networkMean data) (\<lambda>mean_delay.
      and_then (title_delay ''networkStd'' networkStd data) (\<lambda>std_delay.
        Inr (Chart [\<lparr>artists = concat lines, title_name = Network (Some network_name),
                      mean_delay = mean_delay, std_delay = std_delay\<rparr>]))))))))"

definition plot_byzantine_impact :: "DataFrame \<Rightarrow> string \<Rightarrow> unit io" where
  "plot_byzantine_impact data output_filename =
     then_do (lift (byzantine_impact_figure data output_filename)) (\<lambda>fig.
     then_do (savefig (os_path_join OUTPUT_DIR output_filename) fig) (\<lambda>_.
       print (''  Plot saved: '' @ output_filename)))"

text \<open>A loop whose body acts on the world; an exception in one iteration ends the loop.\<close>

fun for_each_do :: "('a \<Rightarrow> unit io) \<Rightarrow> 'a list \<Rightarrow> unit io" where
  "for_each_do f [] = pure ()"
| "for_each_do f (x # xs) = then_do (f x) (\<lambda>_. for_each_do f xs)"

text \<open>
  \<^verbatim>\<open>[f for f in os.listdir(RESULTS_DIR) if f.endswith('.csv') and 'all-experiments' not in f]\<close>
\<close>

definition data_files :: "string list io" where
  "data_files =
     (\<lambda>w. lift (and_then (os_listdir w RESULTS_DIR) (\<lambda>names.
            Inr (filter (\<lambda>f. endswith f ''.csv'' \<and> \<not> contains ''all-experiments'' f) names))) w)"

definition create_byzantine_impact_plots :: "unit io" where
  "create_byzantine_impact_plots =
     then_do (print ''Generating Byzantine impact plots for each network profile...'') (\<lambda>_.
     then_do data_files (\<lambda>files.
       if files = [] then
         then_do (load_data ''all-experiments.csv'') (\<lambda>loaded.
           case loaded of
             None \<Rightarrow> print ''No experiment data found!''
           | Some all_data \<Rightarrow>
               then_do (lift (col ''networkProfile'' networkProfile all_data)) (\<lambda>np.
               then_do
                 (for_each_do
                    (\<lambda>profile.
                       then_do (lift (where_profile profile all_data)) (\<lambda>profile_data.
                         plot_byzantine_impact profile_data
                           (profile_str profile @ ''_byzantine_impact.png'')))
                    (unique np)) (\<lambda>_.
                 print ''Byzantine impact plots generated'')))
       else
         then_do
           (for_each_do
              (\<lambda>file.
                 then_do (load_data file) (\<lambda>loaded.
                   case loaded of
                     None \<Rightarrow> pure ()
                   | Some data \<Rightarrow>
                       plot_byzantine_impact data (splitext_root file @ ''_byzantine_impact.png'')))
              files) (\<lambda>_.
           print ''Byzantine impact plots generated'')))"

text \<open>
  The fallback of \<open>create_combined_visualization\<close>: every individual file is loaded, given
  a \<open>networkProfile\<close> column holding its file name without the extension when it has
  neither that column nor \<open>networkMean\<close>, and appended with \<^verbatim>\<open>pd.concat\<close>. Concatenation
  takes the union of the columns; a row of a frame that lacks one of them holds NaN there.
\<close>

definition tag_profile :: "string \<Rightarrow> DataFrame \<Rightarrow> DataFrame" where
  "tag_profile file data =
     (if ''networkProfile'' \<notin> set (columns data) \<and> ''networkMean'' \<notin> set (columns data)
      then (let profile_name = splitext_root file in
            data\<lparr>columns := columns data @ [''networkProfile''],
                 rows := map (\<lambda>r. r\<lparr>networkProfile := Some profile_name\<rparr>) (rows data)\<rparr>)
      else data)"

definition reindex :: "string list \<Rightarrow> trial \<Rightarrow> trial" where
  "reindex cols r =
     r\<lparr>networkProfile := (if ''networkProfile'' \<in> set cols then networkProfile r else None),
       networkMean := (if ''networkMean'' \<in> set cols then networkMean r else None),
       networkStd := (if ''networkStd'' \<in> set cols then networkStd r else None),
       failure := (if ''failure'' \<in> set cols then failure r else None)\<rparr>"

definition pd_concat :: "DataFrame \<Rightarrow> DataFrame \<Rightarrow> DataFrame" where
  "pd_concat a b =
     \<lparr>columns = columns a @ filter (\<lambda>c. c \<notin> set (columns a)) (columns b),
      rows = map (reindex (columns a)) (rows a) @ map (reindex (columns b)) (rows b)\<rparr>"

fun combine_files :: "string list \<Rightarrow> DataFrame \<Rightarrow> DataFrame io" where
  "combine_files [] all_data = pure all_data"
| "combine_files (file # files) all_data =
     then_do (load_data file) (\<lambda>loaded.
       case loaded of
         None \<Rightarrow> combine_files files all_data
       | Some data \<Rightarrow> combine_files files (pd_concat all_data (tag_profile file data)))"

text \<open>One subplot of the combined figure: the lines of one network profile.\<close>

definition combined_axes :: "DataFrame \<Rightarrow> rat list \<Rightarrow> nat \<times> string option \<Rightarrow> error + axes" where
  "combined_axes all_data byzantine_percentages = (\<lambda>(i, profile).
     and_then (where_profile profile all_data) (\<lambda>profile_data.
     and_then (for_each (errorbar_line profile_data (i = 0)) (enumerate 0 byzantine_percentages)) (\<lambda>lines.
     and_then (title_delay ''networkMean'' networkMean profile_data) (\<lambda>mean_delay.
     and_then (title_delay ''networkStd'' networkStd profile_data) (\<lambda>std_delay.
     and_then (require ''meanTime'' all_data) (\<lambda>_.
     and_then (require ''nodeNum'' all_data) (\<lambda>_.
       Inr \<lparr>artists = concat lines, title_name = Network profile,
            mean_delay = mean_delay, std_delay = std_delay\<rparr>)))))))"

text \<open>\<^verbatim>\<open>plt.subplots(0, 1)\<close> raises \<open>ValueError\<close>: a figure needs at least one row of subplots.\<close>

definition combined_figure :: "DataFrame \<Rightarrow> error + figure" where
  "combined_figure all_data0 =
     (let all_data = filter_failed all_data0 in
      and_then (network_profiles_of all_data) (\<lambda>network_profiles.
      and_then (byzantine_percentages_of all_data) (\<lambda>byzantine_percentages.
        if length network_profiles = 0 then Inl ValueError
        else
          and_then (for_each (combined_axes all_data byzantine_percentages)
                      (enumerate 0 network_profiles)) (\<lambda>axs.
            Inr (Chart axs)))))"

definition create_combined_visualization :: "unit io" where
  "create_combined_visualization =
     then_do (print ''Generating combined network profile visualization...'') (\<lambda>_.
     then_do (load_data ''all-experiments.csv'') (\<lambda>loaded.
     then_do
       (case loaded of
          Some all_data \<Rightarrow> pure (Some all_data)
        | None \<Rightarrow>
            then_do data_files (\<lambda>files.
              if files = [] then then_do (print ''No experiment data found!'') (\<lambda>_. pure None)
              else then_do (combine_files files \<lparr>columns = [], rows = []\<rparr>)
                     (\<lambda>all_data. pure (Some all_data))))
       (\<lambda>found.
          case found of
            None \<Rightarrow> pure ()
          | Some all_data \<Rightarrow>
              then_do (lift (combined_figure all_data)) (\<lambda>fig.
              then_do (savefig (os_path_join OUTPUT_DIR ''combined_network_profiles.png'') fig) (\<lambda>_.
                print ''Combined network profile visualization generated'')))))"

text \<open>
  \<open>create_normalized_scaling_plot\<close>. The profile plotted is the first of the sorted profile
  names. Each line shows \<^verbatim>\<open>meanTime / nodeNum\<close> of a sorted copy of the selected rows; the
  column \<open>time_per_node\<close> is added to that copy only, and the scaling factor of the
  reference lines is then read from \<^verbatim>\<open>profile_data['time_per_node']\<close>.
\<close>

definition fastest_profile :: "DataFrame \<Rightarrow> error + string option" where
  "fastest_profile all_data =
     and_then (network_profiles_of all_data) (\<lambda>network_profiles.
       case network_profiles of [] \<Rightarrow> Inl IndexError | p # _ \<Rightarrow> Inr p)"

definition time_per_node_line :: "DataFrame \<Rightarrow> nat \<times> rat \<Rightarrow> error + artist list" where
  "time_per_node_line profile_data = (\<lambda>(i, percentage).
     and_then (where_percentage percentage profile_data) (\<lambda>selected.
     and_then (sort_values_nodeNum selected) (\<lambda>percentage_data.
       if length (rows percentage_data) = 0 then Inr []
       else
         and_then (require ''meanTime'' percentage_data) (\<lambda>_.
         and_then (require ''nodeNum'' percentage_data) (\<lambda>_.
           Inr [plot_time_per_node percentage (i mod 7) (rows percentage_data)])))))"

definition normalized_scaling_lines ::
    "DataFrame \<Rightarrow> error + (DataFrame \<times> string option \<times> DataFrame \<times> artist list)" where
  "normalized_scaling_lines all_data0 =
     (let all_data = filter_failed all_data0 in
      and_then (byzantine_percentages_of all_data) (\<lambda>byzantine_percentages.
      and_then (fastest_profile all_data) (\<lambda>fastest.
      and_then (where_profile fastest all_data) (\<lambda>profile_data.
      and_then (for_each (time_per_node_line profile_data) (enumerate 0 byzantine_percentages)) (\<lambda>lines.
        Inr (all_data, fastest, profile_data, concat lines))))))"

definition normalized_scaling_figure :: "DataFrame \<Rightarrow> error + figure" where
  "normalized_scaling_figure all_data0 =
     and_then (normalized_scaling_lines all_data0) (\<lambda>(all_data, fastest, profile_data, lines).
     and_then (require ''nodeNum'' all_data) (\<lambda>_.
     and_then (require ''time_per_node'' profile_data) (\<lambda>_.
     and_then (require ''nodeNum'' profile_data) (\<lambda>_.
       Inr (Chart [\<lparr>artists = lines, title_name = Network fastest,
                     mean_delay = Unknown, std_delay = Unknown\<rparr>])))))"

definition create_normalized_scaling_plot :: "unit io" where
  "create_normalized_scaling_plot =
     then_do (print ''Generating normalized scaling plot...'') (\<lambda>_.
     then_do (load_data ''all-experiments.csv'') (\<lambda>loaded.
       case loaded of
         None \<Rightarrow> print ''No experiment data found!''
       | Some all_data \<Rightarrow>
           then_do (lift (normalized_scaling_figure all_data)) (\<lambda>fig.
           then_do (savefig (os_path_join OUTPUT_DIR ''normalized_scaling.png'') fig) (\<lambda>_.
             print ''Normalized scaling plot generated''))))"

text \<open>
  \<open>create_3d_visualization\<close>: for every profile and percentage with rows, a scatter of
  (node count, percentage, mean time) and a line through the same points. Colours and
  markers cycle through four values each.
\<close>

definition scatter_points :: "DataFrame \<Rightarrow> nat \<Rightarrow> nat \<times> rat \<Rightarrow> error + artist list" where
  "scatter_points profile_data i = (\<lambda>(j, percentage).
     and_then (where_percentage percentage profile_data) (\<lambda>selected.
     and_then (sort_values_nodeNum selected) (\<lambda>percentage_data.
       if length (rows percentage_data) = 0 then Inr []
       else
         and_then (require ''nodeNum'' percentage_data) (\<lambda>_.
         and_then (require ''byzantinePercentage'' percentage_data) (\<lambda>_.
         and_then (require ''meanTime'' percentage_data) (\<lambda>_.
           Inr [scatter percentage (i mod 4) (j mod 4) (j = 0) (rows percentage_data),
                plot3d (i mod 4) (rows percentage_data)]))))))"

definition profile_scatter :: "DataFrame \<Rightarrow> rat list \<Rightarrow> nat \<times> string option \<Rightarrow> error + artist list" where
  "profile_scatter all_data byzantine_percentages = (\<lambda>(i, profile).
     and_then (where_profile profile all_data) (\<lambda>profile_data.
     and_then (for_each (scatter_points profile_data i) (enumerate 0 byzantine_percentages)) (\<lambda>points.
       Inr (concat points))))"

definition three_d_figure :: "DataFrame \<Rightarrow> error + figure" where
  "three_d_figure all_data0 =
     (let all_data = filter_failed all_data0 in
      and_then (network_profiles_of all_data) (\<lambda>network_profiles.
      and_then (byzantine_percentages_of all_data) (\<lambda>byzantine_percentages.
      and_then (for_each (profile_scatter all_data byzantine_percentages)
                  (enumerate 0 network_profiles)) (\<lambda>points.
        Inr (Chart [\<lparr>artists = concat points, title_name = Untitled,
                      mean_delay = Unknown, std_delay = Unknown\<rparr>])))))"

definition create_3d_visualization :: "unit io" where
  "create_3d_visualization =
     then_do (print ''Generating 3D visualization...'') (\<lambda>_.
     then_do (load_data ''all-experiments.csv'') (\<lambda>loaded.
       case loaded of
         None \<Rightarrow> print ''No experiment data found!''
       | Some all_data \<Rightarrow>
           then_do (lift (three_d_figure all_data)) (\<lambda>fig.
           then_do (savefig (os_path_join OUTPUT_DIR ''3d_visualization.png'') fig) (\<lambda>_.
             print ''3D visualization generated''))))"

text \<open>
  \<^verbatim>\<open>pivot_table(index='nodeNum', columns='byzantinePercentage', values='meanTime', aggfunc='mean')\<close>:
  the rows are grouped by the pair (node count, percentage); every group yields one cell
  holding the mean of its \<open>meanTime\<close> values. The index and the column labels are the
  sorted distinct keys; a pair of labels without a group is an empty (NaN) cell.
\<close>

definition mean :: "rat list \<Rightarrow> rat" where
  "mean xs = sum_list xs / of_nat (length xs)"

definition group_key :: "trial \<Rightarrow> int \<times> rat" where
  "group_key r = (nodeNum r, byzantinePercentage r)"

definition pivot_table :: "DataFrame \<Rightarrow> error + pivot" where
  "pivot_table data =
     and_then (require ''meanTime'' data) (\<lambda>_.
     and_then (require ''nodeNum'' data) (\<lambda>_.
     and_then (require ''byzantinePercentage'' data) (\<lambda>_.
       let keys = unique (map group_key (rows data)) in
       Inr \<lparr>index = sort (unique (map fst keys)),
            pcolumns = sort (unique (map snd keys)),
            cells = map (\<lambda>k. (k, mean (map meanTime (filter (\<lambda>r. group_key r = k) (rows data))))) keys\<rparr>)))"

definition pivot_at :: "pivot \<Rightarrow> int \<Rightarrow> rat \<Rightarrow> rat option" where
  "pivot_at p x y = map_of (cells p) (x, y)"

text \<open>
  One heat map of \<open>create_heatmaps\<close>. \<^verbatim>\<open>sns.heatmap\<close> raises \<open>ValueError\<close> on a pivot
  without cells (it takes the minimum of an empty array).
\<close>

definition heatmap_figure :: "DataFrame \<Rightarrow> string option \<Rightarrow> error + figure" where
  "heatmap_figure all_data profile =
     and_then (where_profile profile all_data) (\<lambda>profile_data.
     and_then (pivot_table profile_data) (\<lambda>pv.
       if cells pv = [] then Inl ValueError
       else
         and_then (title_delay ''networkMean'' networkMean profile_data) (\<lambda>mean_delay.
         and_then (title_delay ''networkStd'' networkStd profile_data) (\<lambda>std_delay.
           Inr (Heatmap pv mean_delay std_delay)))))"

text \<open>
  \<open>create_heatmaps\<close> filters the table once and then, profile by profile in sorted order,
  builds the heat map and saves it. The heat maps are computed from the filtered table
  alone, so they are listed first (\<open>heatmap_jobs\<close>), each with the exception it may raise;
  the loop then saves them one after the other and stops at the first exception.
\<close>

definition heatmap_jobs :: "DataFrame \<Rightarrow> error + (string option \<times> (error + figure)) list" where
  "heatmap_jobs all_data0 =
     (let all_data = filter_failed all_data0 in
      and_then (network_profiles_of all_data) (\<lambda>network_profiles.
        Inr (map (\<lambda>profile. (profile, heatmap_figure all_data profile)) network_profiles)))"

definition create_heatmaps :: "unit io" where
  "create_heatmaps =
     then_do (print ''Generating heatmaps...'') (\<lambda>_.
     then_do (load_data ''all-experiments.csv'') (\<lambda>loaded.
       case loaded of
         None \<Rightarrow> print ''No experiment data found!''
       | Some all_data \<Rightarrow>
           then_do (lift (heatmap_jobs all_data)) (\<lambda>jobs.
           then_do
             (for_each_do
                (\<lambda>(profile, job).
                   then_do (lift job) (\<lambda>fig.
                     savefig (os_path_join OUTPUT_DIR (profile_str profile @ ''_heatmap.png'')) fig))
                jobs) (\<lambda>_.
             print ''Heatmaps generated''))))"

text \<open>
  \<open>create_comprehensive_visualization\<close>: a grid with one subplot per profile and
  percentage. A combination without rows shows the text \<open>No Data\<close> and the loop goes on.
  \<^verbatim>\<open>fig.add_gridspec\<close> raises \<open>ValueError\<close> for a grid without rows or columns.
\<close>

definition grid_cell :: "DataFrame \<Rightarrow> DataFrame \<Rightarrow> string option \<Rightarrow> nat \<times> rat \<Rightarrow> error + axes" where
  "grid_cell all_data profile_data profile = (\<lambda>(j, percentage).
     and_then (where_percentage percentage profile_data) (\<lambda>selected.
     and_then (sort_values_nodeNum selected) (\<lambda>percentage_data.
       if length (rows percentage_data) = 0
       then Inr \<lparr>artists = [text_no_data], title_name = Untitled,
                 mean_delay = Unknown, std_delay = Unknown\<rparr>
       else
         and_then (require ''nodeNum'' percentage_data) (\<lambda>_.
         and_then (require ''meanTime'' percentage_data) (\<lambda>_.
         and_then (require ''stdTime'' percentage_data) (\<lambda>_.
         and_then (require ''meanTime'' all_data) (\<lambda>_.
           Inr \<lparr>artists = [errorbar percentage 0 False (rows percentage_data)],
                title_name = Network profile, mean_delay = Unknown, std_delay = Unknown\<rparr>)))))))"

definition grid_row :: "DataFrame \<Rightarrow> rat list \<Rightarrow> nat \<times> string option \<Rightarrow> error + axes list" where
  "grid_row all_data byzantine_percentages = (\<lambda>(i, profile).
     and_then (where_profile profile all_data) (\<lambda>profile_data.
       for_each (grid_cell all_data profile_data profile) (enumerate 0 byzantine_percentages)))"

definition comprehensive_figure :: "DataFrame \<Rightarrow> error + figure" where
  "comprehensive_figure all_data0 =
     (let all_data = filter_failed all_data0 in
      and_then (network_profiles_of all_data) (\<lambda>network_profiles.
      and_then (byzantine_percentages_of all_data) (\<lambda>byzantine_percentages.
        if length network_profiles = 0 \<or> length byzantine_percentages = 0 then Inl ValueError
        else
          and_then (for_each (grid_row all_data byzantine_percentages)
                      (enumerate 0 network_profiles)) (\<lambda>grid.
            Inr (Chart (concat grid))))))"

definition create_comprehensive_visualization :: "unit io" where
  "create_comprehensive_visualization =
     then_do (print ''Generating comprehensive visualization...'') (\<lambda>_.
     then_do (load_data ''all-experiments.csv'') (\<lambda>loaded.
       case loaded of
         None \<Rightarrow> print ''No experiment data found!''
       | Some all_data \<Rightarrow>
           then_do (lift (comprehensive_figure all_data)) (\<lambda>fig.
           then_do (savefig (os_path_join OUTPUT_DIR ''comprehensive_visualization.png'') fig) (\<lambda>_.
             print ''Comprehensive visualization generated''))))"

text \<open>
  \<open>main\<close> runs the six chart functions in order, so an exception in one of them keeps the
  later ones from running. The script creates the output directory when the module is
  loaded and then calls \<open>main\<close>.
\<close>

definition main :: "unit io" where
  "main =
     then_do (print ''Starting visualization generation...'') (\<lambda>_.
     then_do ensure_output_dir (\<lambda>_.
     then_do create_byzantine_impact_plots (\<lambda>_.
     then_do create_combined_visualization (\<lambda>_.
     then_do create_normalized_scaling_plot (\<lambda>_.
     then_do create_3d_visualization (\<lambda>_.
     then_do create_heatmaps (\<lambda>_.
     then_do create_comprehensive_visualization (\<lambda>_.
       print (''All visualizations complete! Output saved to: '' @ OUTPUT_DIR)))))))))"

definition visualize_results :: "unit io" where
  "visualize_results = then_do ensure_output_dir (\<lambda>_. main)"

section \<open>The static-figure generator\<close>

text \<open>
  \<^verbatim>\<open>data/index.py\<close> draws one grouped bar chart from arrays written into the script:
  nine protocols, six fault counts, the measured SSB-Babble times converted to seconds.
\<close>

definition protocols :: "string list" where
  "protocols = [''ADD+v1'', ''ADD+v2'', ''ADD+v3'', ''Algorand'', ''Async BA'',
                ''PBFT'', ''HotStuff+NSL'', ''LibraBFT'', ''SSB-Babble'']"

definition ssb_babble_means :: "rat list" where
  "ssb_babble_means = [3341.91 / 1000, 3413.89 / 1000, 3576.63 / 1000,
                       3742.82 / 1000, 4002.25 / 1000, 4423.41 / 1000]"

definition ssb_babble_stds :: "rat list" where
  "ssb_babble_stds = [115 / 1000, 139 / 1000, 178 / 1000, 232 / 1000, 246 / 1000, 400 / 1000]"

definition f_values :: "nat list" where
  "f_values = [0, 1, 2, 3, 4, 5]"

definition data :: "rat list list" where
  "data = [[7, 7.1, 7.2, 7.3, 7.4, 7.5],
           [7, 7.1, 7.2, 7.3, 7.4, 7.5],
           [13.5, 13.7, 13.8, 14, 14.1, 14.2],
           [4.5, 4.6, 4.7, 4.8, 5, 5.8],
           [13, 13.2, 13.4, 13.6, 13.8, 12.2],
           [3.3, 3.5, 3.7, 3.9, 4.3, 5],
           [2.5, 3, 3.5, 4, 5, 25],
           [2.2, 2.5, 3.5, 3.7, 6, 6.3],
           ssb_babble_means]"

definition std_data :: "rat list list" where
  "std_data = [[0.3, 0.3, 0.4, 0.4, 0.4, 0.4],
               [1, 1, 1, 1, 0.8, 0.8],
               [1.5, 1.5, 2, 2, 2, 2],
               [0.2, 0.2, 0.2, 0.2, 0.3, 1.5],
               [4, 4, 3.5, 3.5, 3, 3],
               [0.1, 0.1, 0.2, 0.3, 0.5, 0.8],
               [0.1, 0.1, 0.2, 0.3, 0.7, 1],
               [0.1, 0.1, 0.2, 0.2, 0.3, 0.3],
               ssb_babble_stds]"

definition colors :: "string list" where
  "colors = [''#D5F5E3'', ''#ABEBC6'', ''#82E0AA'', ''#58D68D'', ''#2ECC71'', ''#1D8348'']"

definition width :: rat where
  "width = 0.13"

text \<open>\<^verbatim>\<open>np.arange(len(protocols))\<close> and the column \<^verbatim>\<open>a[:, i]\<close> of a two-dimensional array.\<close>

definition x_arr :: "rat list" where
  "x_arr = map of_nat [0..<length protocols]"

definition column :: "rat list list \<Rightarrow> nat \<Rightarrow> rat list" where
  "column a i = map (\<lambda>row. row ! i) a"

text \<open>
  \<^verbatim>\<open>ax.bar(xs, heights, width, color=c, yerr=errs, label=...)\<close> draws one bar per position,
  each with its own error bar.
\<close>

definition ax_bar :: "rat list \<Rightarrow> rat list \<Rightarrow> rat \<Rightarrow> string \<Rightarrow> rat list \<Rightarrow> nat \<Rightarrow> bar list" where
  "ax_bar xs heights wd c errs f =
     map (\<lambda>(px, h, e). \<lparr>bar_x = px, height = h, bar_width = wd, color = c, yerr = e, f_label = f\<rparr>)
       (zip xs (zip heights errs))"

definition bars :: "bar list" where
  "bars = concat (map (\<lambda>(i, f).
             ax_bar (map (\<lambda>px. px + of_nat i * width - 0.35) x_arr) (column data i) width
               (colors ! i) (column std_data i) f)
           (enumerate 0 f_values))"

text \<open>The bar of protocol \<open>p\<close> and fault count \<open>f\<close>: the \<open>p\<close>-th bar of the \<open>f\<close>-th call.\<close>

definition bar_of :: "nat \<Rightarrow> nat \<Rightarrow> bar" where
  "bar_of p f = bars ! (f * length protocols + p)"

definition static_figure :: "unit io" where
  "static_figure = savefig ''updated_fig7_with_ssb_babble.png'' (BarChart bars)"

section \<open>Reading a figure\<close>

text \<open>The rows an artist plots, the percentage it is drawn for, and the rows of a whole figure.\<close>

fun artist_rows :: "artist \<Rightarrow> trial list" where
  "artist_rows (errorbar percentage marker labelled rs) = rs"
| "artist_rows (plot_time_per_node percentage marker rs) = rs"
| "artist_rows (scatter percentage colour marker labelled rs) = rs"
| "artist_rows (plot3d colour rs) = rs"
| "artist_rows text_no_data = []"

fun artist_percentage :: "artist \<Rightarrow> rat option" where
  "artist_percentage (errorbar percentage marker labelled rs) = Some percentage"
| "artist_percentage (plot_time_per_node percentage marker rs) = Some percentage"
| "artist_percentage (scatter percentage colour marker labelled rs) = Some percentage"
| "artist_percentage (plot3d colour rs) = None"
| "artist_percentage text_no_data = None"

fun figure_axes :: "figure \<Rightarrow> axes list" where
  "figure_axes (Chart axs) = axs"
| "figure_axes (Heatmap pv m s) = []"
| "figure_axes (BarChart bs) = []"

definition plotted_rows :: "figure \<Rightarrow> trial list" where
  "plotted_rows fig = concat (map artist_rows (concat (map artists (figure_axes fig))))"

text \<open>The lines drawn for one percentage in the subplots titled with one network.\<close>

definition series_in :: "figure \<Rightarrow> title \<Rightarrow> rat \<Rightarrow> trial list list" where
  "series_in fig ttl percentage =
     map artist_rows
       (filter (\<lambda>a. artist_percentage a = Some percentage)
          (concat (map artists (filter (\<lambda>ax. title_name ax = ttl) (figure_axes fig)))))"

text \<open>
  A trial is failed when its failure flag is set to true. The rows of a table that count
  as not failed: all of them when the table has no failure column.
\<close>

definition failed :: "trial \<Rightarrow> bool" where
  "failed r = (failure r = Some True)"

definition non_failed_rows :: "DataFrame \<Rightarrow> trial list" where
  "non_failed_rows t =
     (if ''failure'' \<in> set (columns t) then filter (\<lambda>r. \<not> failed r) (rows t) else rows t)"

definition without_failed :: "DataFrame \<Rightarrow> DataFrame" where
  "without_failed t = t\<lparr>rows := filter (\<lambda>r. \<not> failed r) (rows t)\<rparr>"

text \<open>
  The rows of one Byzantine percentage in the order of their node counts, the rows of one
  network profile, and the subplot of the comprehensive grid for one profile and percentage.
\<close>

definition grp :: "DataFrame \<Rightarrow> rat \<Rightarrow> trial list" where
  "grp d p = sort_key nodeNum (filter (\<lambda>r. byzantinePercentage r = p) (rows d))"

definition of_profile :: "string option \<Rightarrow> DataFrame \<Rightarrow> DataFrame" where
  "of_profile profile d = select (\<lambda>r. profile \<noteq> None \<and> networkProfile r = profile) d"

definition cell_axes :: "DataFrame \<Rightarrow> string option \<Rightarrow> rat \<Rightarrow> axes" where
  "cell_axes d profile p =
     (if grp (of_profile profile d) p = []
      then \<lparr>artists = [text_no_data], title_name = Untitled, mean_delay = Unknown, std_delay = Unknown\<rparr>
      else \<lparr>artists = [errorbar p 0 False (grp (of_profile profile d) p)], title_name = Network profile,
            mean_delay = Unknown, std_delay = Unknown\<rparr>)"

text \<open>The non-failed rows of one aggregation key: a network profile and a percentage.\<close>

definition key_rows :: "DataFrame \<Rightarrow> string \<Rightarrow> rat \<Rightarrow> trial list" where
  "key_rows t q b =
     filter (\<lambda>r. networkProfile r = Some q \<and> byzantinePercentage r = b) (non_failed_rows t)"

text \<open>The paths at which two worlds store different things.\<close>

definition changed :: "world \<Rightarrow> world \<Rightarrow> string set" where
  "changed w w' = {p. map_of (fs w') p \<noteq> map_of (fs w) p}"

text \<open>
  The names the result visualizer gives its images: a profile followed by the chart type for
  the per-profile charts, a fixed name for the others.
\<close>

definition is_chart_name :: "string \<Rightarrow> bool" where
  "is_chart_name n =
     (endswith n ''_byzantine_impact.png'' \<or> endswith n ''_heatmap.png''
      \<or> n \<in> set [''combined_network_profiles.png'', ''normalized_scaling.png'',
                  ''3d_visualization.png'', ''comprehensive_visualization.png''])"

text \<open>
  From one world to a later one only charts were written: every path stores what it stored
  before, or it is the output directory, now a directory, or it is the path joined from the
  output directory and a chart name, now an image.
\<close>

definition only_charts :: "world \<Rightarrow> world \<Rightarrow> bool" where
  "only_charts w w' =
     (\<forall>p. map_of (fs w') p = map_of (fs w) p
        \<or> (p = OUTPUT_DIR \<and> map_of (fs w') p = Some Dir)
        \<or> (\<exists>n fig. is_chart_name n \<and> p = os_path_join OUTPUT_DIR n
              \<and> map_of (fs w') p = Some (Png fig)))"

definition writes_charts :: "'a io \<Rightarrow> bool" where
  "writes_charts m = (\<forall>w. only_charts w (snd (m w)))"

section \<open>A sample run\<close>

text \<open>
  A results directory holding \<^verbatim>\<open>all-experiments.csv\<close> with four trials on two networks:
  one trial failed, one has no failure value, and no trial of the network \<open>wan\<close> was run
  without Byzantine nodes.
\<close>

definition all_columns :: "string list" where
  "all_columns = [''networkProfile'', ''nodeNum'', ''byzantinePercentage'', ''meanTime'',
                  ''stdTime'', ''networkMean'', ''networkStd'', ''failure'']"

definition lan_4 :: trial where
  "lan_4 = \<lparr>networkProfile = Some ''lan'', nodeNum = 4, byzantinePercentage = 0,
            meanTime = 100, stdTime = 5, networkMean = Some 1, networkStd = Some 0,
            failure = Some False\<rparr>"

definition lan_8_failed :: trial where
  "lan_8_failed = \<lparr>networkProfile = Some ''lan'', nodeNum = 8, byzantinePercentage = 0,
            meanTime = 900, stdTime = 50, networkMean = Some 1, networkStd = Some 0,
            failure = Some True\<rparr>"

definition lan_4_again :: trial where
  "lan_4_again = \<lparr>networkProfile = Some ''lan'', nodeNum = 4, byzantinePercentage = 0,
            meanTime = 120, stdTime = 7, networkMean = Some 1, networkStd = Some 0,
            failure = None\<rparr>"

definition wan_4 :: trial where
  "wan_4 = \<lparr>networkProfile = Some ''wan'', nodeNum = 4, byzantinePercentage = 10,
            meanTime = 300, stdTime = 20, networkMean = Some 5, networkStd = Some 1,
            failure = Some False\<rparr>"

definition sample_table :: DataFrame where
  "sample_table = \<lparr>columns = all_columns, rows = [wan_4, lan_8_failed, lan_4, lan_4_again]\<rparr>"

definition sample_world :: world where
  "sample_world =
     \<lparr>fs = [(''results'', Dir), (''results/all-experiments.csv'', Csv sample_table)],
      stdout = []\<rparr>"

text \<open>
  A results directory holding only \<^verbatim>\<open>slow.csv\<close>, an individual result file that records the
  network delay but has no \<open>networkProfile\<close> column.
\<close>

definition slow_16 :: trial where
  "slow_16 = \<lparr>networkProfile = None, nodeNum = 16, byzantinePercentage = 0,
              meanTime = 700, stdTime = 30, networkMean = Some 5, networkStd = Some 1,
              failure = None\<rparr>"

definition slow_table :: DataFrame where
  "slow_table = \<lparr>columns = [''nodeNum'', ''byzantinePercentage'', ''meanTime'', ''stdTime'',
                             ''networkMean'', ''networkStd''],
                  rows = [slow_16]\<rparr>"

definition slow_world :: world where
  "slow_world = \<lparr>fs = [(''results'', Dir), (''results/slow.csv'', Csv slow_table)], stdout = []\<rparr>"

text \<open>
  The same directory with \<^verbatim>\<open>fast.csv\<close> beside it, a file with the measurement columns only.
\<close>

definition fast_4 :: trial where
  "fast_4 = \<lparr>networkProfile = None, nodeNum = 4, byzantinePercentage = 0,
             meanTime = 90, stdTime = 4, networkMean = None, networkStd = None,
             failure = None\<rparr>"

definition fast_table :: DataFrame where
  "fast_table = \<lparr>columns = [''nodeNum'', ''byzantinePercentage'', ''meanTime'', ''stdTime''],
                  rows = [fast_4]\<rparr>"

definition two_files_world :: world where
  "two_files_world =
     \<lparr>fs = [(''results'', Dir), (''results/fast.csv'', Csv fast_table),
            (''results/slow.csv'', Csv slow_table)],
      stdout = []\<rparr>"

text \<open>
  A results directory whose \<^verbatim>\<open>all-experiments.csv\<close> holds two trials: the only trial of the
  network \<open>lan\<close> failed, the trial of \<open>wan\<close> did not. No failure value is missing.
\<close>

definition failed_profile_table :: DataFrame where
  "failed_profile_table = \<lparr>columns = all_columns, rows = [lan_8_failed, wan_4]\<rparr>"

definition failed_profile_world :: world where
  "failed_profile_world =
     \<lparr>fs = [(''results'', Dir), (''results/all-experiments.csv'', Csv failed_profile_table)],
      stdout = []\<rparr>"

section \<open>Sequencing\<close>

lemma and_then_Inr [simp]: "and_then (Inr v) f = f v"
  by (simp add: and_then_def)

lemma and_then_Inl [simp]: "and_then (Inl e) f = Inl e"
  by (simp add: and_then_def)

lemma and_then_eq_Inr: "(and_then m f = Inr y) = (\<exists>v. m = Inr v \<and> f v = Inr y)"
  by (cases m) simp_all

lemma for_each_Inr:
  "for_each f xs = Inr ys \<Longrightarrow> length ys = length xs \<and> (\<forall>j<length xs. f (xs ! j) = Inr (ys ! j))"
proof (induction xs arbitrary: ys)
  case Nil
  then show ?case by simp
next
  case (Cons x xs)
  from Cons.prems obtain y ys' where y: "f x = Inr y" and ys': "for_each f xs = Inr ys'"
    and ys: "ys = y # ys'"
    by (auto simp: and_then_eq_Inr)
  from Cons.IH [OF ys'] y ys show ?case
    by (auto simp: nth_Cons split: nat.splits)
qed

lemma for_each_total:
  "(\<And>x. x \<in> set xs \<Longrightarrow> \<exists>y. f x = Inr y) \<Longrightarrow> \<exists>ys. for_each f xs = Inr ys"
proof (induction xs)
  case Nil
  then show ?case by simp
next
  case (Cons x xs)
  then obtain y where "f x = Inr y" by auto
  moreover from Cons obtain ys where "for_each f xs = Inr ys" by auto
  ultimately show ?case by simp
qed

section \<open>Tables and the failure filter\<close>

lemma require_Inr [simp]: "(require name d = Inr u) = (name \<in> set (columns d))"
  by (simp add: require_def)

lemma columns_select [simp]: "columns (select keep d) = columns d"
  by (simp add: select_def)

lemma rows_select [simp]: "rows (select keep d) = filter keep (rows d)"
  by (simp add: select_def)

lemma columns_filter_failed [simp]: "columns (filter_failed t) = columns t"
  by (simp add: filter_failed_def)

lemma rows_filter_failed:
  "rows (filter_failed t) =
     (if ''failure'' \<in> set (columns t) then filter (\<lambda>r. \<not> failed r) (rows t) else rows t)"
proof -
  have "(\<not> fillna_False (failure r)) = (\<not> failed r)" for r
    by (cases "failure r") (simp_all add: fillna_False_def failed_def)
  then show ?thesis by (simp add: filter_failed_def)
qed

lemma rows_filter_failed_non_failed: "rows (filter_failed t) = non_failed_rows t"
  by (simp add: rows_filter_failed non_failed_rows_def)

lemma filter_failed_subset: "set (rows (filter_failed t)) \<subseteq> set (rows t)"
  by (simp add: rows_filter_failed)

lemma filter_failed_not_failed:
  "''failure'' \<in> set (columns t) \<Longrightarrow> r \<in> set (rows (filter_failed t)) \<Longrightarrow> \<not> failed r"
  by (simp add: rows_filter_failed)

lemma filter_failed_without_failed:
  "''failure'' \<in> set (columns t) \<Longrightarrow> filter_failed (without_failed t) = filter_failed t"
  by (simp add: filter_failed_def without_failed_def select_def fillna_False_def failed_def
      split: option.splits cong: filter_cong) 

section \<open>The loops over percentages\<close>

lemma sort_key_eq_Nil [simp]: "(sort_key f xs = []) = (xs = [])"
  using length_sort [of f xs] by (metis length_0_conv)

lemma set_grp [simp]: "set (grp d p) = {r \<in> set (rows d). byzantinePercentage r = p}"
  by (auto simp: grp_def)

lemma errorbar_line_Inr:
  "errorbar_line d lab (i, p) = Inr as \<Longrightarrow>
     as = (if grp d p = [] then [] else [errorbar p (i mod 7) lab (grp d p)])"
  by (auto simp: errorbar_line_def where_percentage_def sort_values_nodeNum_def and_then_eq_Inr grp_def
      split: if_splits)

lemma time_per_node_line_Inr:
  "time_per_node_line d (i, p) = Inr as \<Longrightarrow>
     as = (if grp d p = [] then [] else [plot_time_per_node p (i mod 7) (grp d p)])"
  by (auto simp: time_per_node_line_def where_percentage_def sort_values_nodeNum_def and_then_eq_Inr grp_def
      split: if_splits)

lemma scatter_points_Inr:
  "scatter_points d i (j, p) = Inr as \<Longrightarrow>
     as = (if grp d p = [] then []
           else [scatter p (i mod 4) (j mod 4) (j = 0) (grp d p), plot3d (i mod 4) (grp d p)])"
  by (auto simp: scatter_points_def where_percentage_def sort_values_nodeNum_def and_then_eq_Inr grp_def
      split: if_splits)

lemma grid_cell_Inr:
  "grid_cell a d profile (j, p) = Inr ax \<Longrightarrow>
     ax = (if grp d p = []
           then \<lparr>artists = [text_no_data], title_name = Untitled, mean_delay = Unknown, std_delay = Unknown\<rparr>
           else \<lparr>artists = [errorbar p 0 False (grp d p)], title_name = Network profile,
                 mean_delay = Unknown, std_delay = Unknown\<rparr>)"
  by (auto simp: grid_cell_def where_percentage_def sort_values_nodeNum_def and_then_eq_Inr grp_def
      split: if_splits)

lemma byzantine_percentages_of_Inr:
  "byzantine_percentages_of d = Inr bps \<Longrightarrow>
     set bps = byzantinePercentage ` set (rows d) \<and> distinct bps \<and> sorted bps"
  by (auto simp: byzantine_percentages_of_def col_def unique_def and_then_eq_Inr split: if_splits)

lemma sorted_profiles_Inr:
  assumes "sorted_profiles ps = Inr qs"
  shows "set qs = set ps"
proof (cases "None \<in> set ps")
  case True
  with assms show ?thesis by (simp add: sorted_profiles_def split: if_splits)
next
  case False
  then have "Some (the p) = p" if "p \<in> set ps" for p using that by (cases p) auto
  then have "Some ` the ` set ps = set ps" by force
  moreover from assms False have "qs = map Some (sort (map the ps))"
    by (simp add: sorted_profiles_def)
  ultimately show ?thesis by (simp add: image_image)
qed

lemma network_profiles_of_Inr:
  assumes "network_profiles_of d = Inr nps"
  shows "set nps = networkProfile ` set (rows d)"
proof -
  from assms have "sorted_profiles (unique (map networkProfile (rows d))) = Inr nps"
    by (simp add: network_profiles_of_def col_def split: if_splits)
  from sorted_profiles_Inr [OF this] show ?thesis by (simp add: unique_def)
qed

lemma enumerate_lines:
  assumes "for_each body (enumerate n bps) = Inr lines"
    and "\<And>i p as. body (i, p) = Inr as \<Longrightarrow> as = mk i p"
  shows "concat lines = concat (map (\<lambda>(i, p). mk i p) (enumerate n bps))"
proof -
  from for_each_Inr [OF assms(1)]
  have len: "length lines = length bps"
    and nth: "\<And>j. j < length bps \<Longrightarrow> body (enumerate n bps ! j) = Inr (lines ! j)"
    by auto
  have "lines = map (\<lambda>(i, p). mk i p) (enumerate n bps)"
  proof (rule nth_equalityI)
    show "length lines = length (map (\<lambda>(i, p). mk i p) (enumerate n bps))" using len by simp
  next
    fix j assume "j < length lines"
    then have j: "j < length bps" using len by simp
    from nth [OF j] have "body (n + j, bps ! j) = Inr (lines ! j)" using j by (simp add: nth_enumerate_eq)
    from assms(2) [OF this] show "lines ! j = map (\<lambda>(i, p). mk i p) (enumerate n bps) ! j"
      using j by (simp add: nth_enumerate_eq)
  qed
  then show ?thesis by simp
qed

lemma in_enumerate_lines:
  "a \<in> set (concat (map (\<lambda>(i, p). mk i p) (enumerate n bps))) \<longleftrightarrow>
     (\<exists>j<length bps. a \<in> set (mk (n + j) (bps ! j)))"
proof
  assume "a \<in> set (concat (map (\<lambda>(i, p). mk i p) (enumerate n bps)))"
  then obtain ip where ip: "ip \<in> set (enumerate n bps)" and a: "a \<in> set (case ip of (i, p) \<Rightarrow> mk i p)"
    by auto
  from ip obtain j where "j < length bps" "ip = (n + j, bps ! j)"
    by (auto simp: in_set_conv_nth nth_enumerate_eq)
  with a show "\<exists>j<length bps. a \<in> set (mk (n + j) (bps ! j))" by auto
next
  assume "\<exists>j<length bps. a \<in> set (mk (n + j) (bps ! j))"
  then obtain j where j: "j < length bps" and a: "a \<in> set (mk (n + j) (bps ! j))" by auto
  then have "(n + j, bps ! j) \<in> set (enumerate n bps)"
    by (auto simp: in_set_conv_nth nth_enumerate_eq intro!: exI [of _ j])
  with a show "a \<in> set (concat (map (\<lambda>(i, p). mk i p) (enumerate n bps)))"
    by force
qed

lemma errorbar_lines:
  assumes "for_each (errorbar_line d lab) (enumerate n bps) = Inr lines"
  shows "a \<in> set (concat lines) \<longleftrightarrow>
     (\<exists>j<length bps. grp d (bps ! j) \<noteq> [] \<and> a = errorbar (bps ! j) ((n + j) mod 7) lab (grp d (bps ! j)))"
proof -
  have "concat lines = concat (map (\<lambda>(i, p). if grp d p = [] then []
          else [errorbar p (i mod 7) lab (grp d p)]) (enumerate n bps))"
    by (rule enumerate_lines [OF assms]) (rule errorbar_line_Inr)
  then show ?thesis by (simp only: in_enumerate_lines) auto
qed

lemma time_per_node_lines:
  assumes "for_each (time_per_node_line d) (enumerate n bps) = Inr lines"
  shows "a \<in> set (concat lines) \<longleftrightarrow>
     (\<exists>j<length bps. grp d (bps ! j) \<noteq> [] \<and> a = plot_time_per_node (bps ! j) ((n + j) mod 7) (grp d (bps ! j)))"
proof -
  have "concat lines = concat (map (\<lambda>(i, p). if grp d p = [] then []
          else [plot_time_per_node p (i mod 7) (grp d p)]) (enumerate n bps))"
    by (rule enumerate_lines [OF assms]) (rule time_per_node_line_Inr)
  then show ?thesis by (simp only: in_enumerate_lines) auto
qed

lemma scatter_lines:
  assumes "for_each (scatter_points d i) (enumerate n bps) = Inr lines"
  shows "a \<in> set (concat lines) \<longleftrightarrow>
     (\<exists>j<length bps. grp d (bps ! j) \<noteq> [] \<and>
        (a = scatter (bps ! j) (i mod 4) ((n + j) mod 4) (n + j = 0) (grp d (bps ! j))
         \<or> a = plot3d (i mod 4) (grp d (bps ! j))))"
proof -
  have "concat lines = concat (map (\<lambda>(j, p). if grp d p = [] then []
          else [scatter p (i mod 4) (j mod 4) (j = 0) (grp d p), plot3d (i mod 4) (grp d p)])
          (enumerate n bps))"
    by (rule enumerate_lines [OF assms]) (rule scatter_points_Inr)
  then show ?thesis by (simp only: in_enumerate_lines) auto
qed

lemma grp_not_Nil: "r \<in> set (rows d) \<Longrightarrow> byzantinePercentage r = p \<Longrightarrow> grp d p \<noteq> []"
  using set_grp [of d p] by (metis (mono_tags, lifting) empty_iff empty_set mem_Collect_eq)

section \<open>The rows a figure shows\<close>

lemma byzantine_impact_figure_Inr:
  assumes "byzantine_impact_figure t name = Inr fig"
  obtains ax bps lines where "fig = Chart [ax]"
    and "byzantine_percentages_of (filter_failed t) = Inr bps"
    and "for_each (errorbar_line (filter_failed t) True) (enumerate 0 bps) = Inr lines"
    and "artists ax = concat lines"
    and "title_name ax = Network (Some (takeWhile (\<lambda>c. c \<noteq> CHR ''_'') name))"
  using assms
  by (auto simp: byzantine_impact_figure_def Let_def and_then_eq_Inr)

lemma impact_plotted_rows:
  assumes "byzantine_impact_figure t name = Inr fig"
  shows "set (plotted_rows fig) = set (rows (filter_failed t))"
proof -
  from assms obtain ax bps lines where fig: "fig = Chart [ax]"
    and bps: "byzantine_percentages_of (filter_failed t) = Inr bps"
    and lines: "for_each (errorbar_line (filter_failed t) True) (enumerate 0 bps) = Inr lines"
    and ax: "artists ax = concat lines"
    by (rule byzantine_impact_figure_Inr)
  note mem = errorbar_lines [OF lines]
  from byzantine_percentages_of_Inr [OF bps]
  have set_bps: "set bps = byzantinePercentage ` set (rows (filter_failed t))" by simp
  show ?thesis
  proof (intro set_eqI iffI)
    fix r assume "r \<in> set (plotted_rows fig)"
    then obtain a where "a \<in> set (concat lines)" "r \<in> set (artist_rows a)"
      by (auto simp: plotted_rows_def fig ax)
    then show "r \<in> set (rows (filter_failed t))" unfolding mem by auto
  next
    fix r assume r: "r \<in> set (rows (filter_failed t))"
    then have "byzantinePercentage r \<in> set bps" by (simp add: set_bps)
    then obtain j where j: "j < length bps" "bps ! j = byzantinePercentage r"
      by (auto simp: in_set_conv_nth)
    let ?a = "errorbar (bps ! j) ((0 + j) mod 7) True (grp (filter_failed t) (bps ! j))"
    from r j have ne: "grp (filter_failed t) (bps ! j) \<noteq> []"
      by (simp add: grp_not_Nil)
    with j have "?a \<in> set (concat lines)" unfolding mem by blast
    moreover from r j have "r \<in> set (artist_rows ?a)" by simp
    ultimately have "\<exists>a\<in>set (concat lines). r \<in> set (artist_rows a)" by blast
    then show "r \<in> set (plotted_rows fig)"
      by (simp add: plotted_rows_def fig ax)
  qed
qed

lemma errorbar_lines_rows:
  assumes "for_each (errorbar_line d lab) (enumerate n bps) = Inr lines"
  shows "(\<exists>a\<in>set (concat lines). r \<in> set (artist_rows a)) \<longleftrightarrow>
     (r \<in> set (rows d) \<and> byzantinePercentage r \<in> set bps)"
proof
  assume "\<exists>a\<in>set (concat lines). r \<in> set (artist_rows a)"
  then obtain a where "a \<in> set (concat lines)" and r: "r \<in> set (artist_rows a)" by blast
  then obtain j where "j < length bps" "a = errorbar (bps ! j) ((n + j) mod 7) lab (grp d (bps ! j))"
    unfolding errorbar_lines [OF assms] by blast
  with r show "r \<in> set (rows d) \<and> byzantinePercentage r \<in> set bps" by auto
next
  assume r: "r \<in> set (rows d) \<and> byzantinePercentage r \<in> set bps"
  then obtain j where j: "j < length bps" "bps ! j = byzantinePercentage r"
    by (auto simp: in_set_conv_nth)
  let ?a = "errorbar (bps ! j) ((n + j) mod 7) lab (grp d (bps ! j))"
  from r j have "grp d (bps ! j) \<noteq> []" using grp_not_Nil [of r d "bps ! j"] by simp
  with j have "?a \<in> set (concat lines)" unfolding errorbar_lines [OF assms] by blast
  moreover from r j have "r \<in> set (artist_rows ?a)" by simp
  ultimately show "\<exists>a\<in>set (concat lines). r \<in> set (artist_rows a)" by blast
qed

lemma errorbar_lines_series:
  assumes "for_each (errorbar_line d lab) (enumerate n bps) = Inr lines"
  shows "set (map artist_rows (filter (\<lambda>a. artist_percentage a = Some b) (concat lines)))
         = (if b \<in> set bps \<and> grp d b \<noteq> [] then {grp d b} else {})"
proof -
  have "rs \<in> set (map artist_rows (filter (\<lambda>a. artist_percentage a = Some b) (concat lines)))
        \<longleftrightarrow> (b \<in> set bps \<and> grp d b \<noteq> [] \<and> rs = grp d b)" for rs
  proof
    assume "rs \<in> set (map artist_rows (filter (\<lambda>a. artist_percentage a = Some b) (concat lines)))"
    then obtain a where a: "a \<in> set (concat lines)" "artist_percentage a = Some b" "rs = artist_rows a"
      by (auto simp del: set_concat)
    from a(1) obtain j where "j < length bps" "grp d (bps ! j) \<noteq> []"
      "a = errorbar (bps ! j) ((n + j) mod 7) lab (grp d (bps ! j))"
      unfolding errorbar_lines [OF assms] by blast
    with a(2,3) show "b \<in> set bps \<and> grp d b \<noteq> [] \<and> rs = grp d b" by auto
  next
    assume b: "b \<in> set bps \<and> grp d b \<noteq> [] \<and> rs = grp d b"
    then obtain j where j: "j < length bps" "bps ! j = b" by (auto simp: in_set_conv_nth)
    let ?a = "errorbar (bps ! j) ((n + j) mod 7) lab (grp d (bps ! j))"
    from b j have "?a \<in> set (concat lines)" unfolding errorbar_lines [OF assms] by blast
    moreover from b j have "artist_percentage ?a = Some b" "rs = artist_rows ?a" by simp_all
    ultimately have "?a \<in> set (filter (\<lambda>a. artist_percentage a = Some b) (concat lines))"
      and "rs = artist_rows ?a"
      by (simp_all del: set_concat)
    then show "rs \<in> set (map artist_rows (filter (\<lambda>a. artist_percentage a = Some b) (concat lines)))"
      unfolding set_map by (rule image_eqI [rotated])
  qed
  then show ?thesis by auto
qed

lemma where_profile_Inr:
  "where_profile profile d = Inr pd \<Longrightarrow>
     pd = select (\<lambda>r. profile \<noteq> None \<and> networkProfile r = profile) d"
  by (auto simp: where_profile_def and_then_eq_Inr)

lemma combined_axes_Inr:
  assumes "combined_axes d bps (i, profile) = Inr ax"
  obtains lines where
    "for_each (errorbar_line (select (\<lambda>r. profile \<noteq> None \<and> networkProfile r = profile) d) (i = 0))
       (enumerate 0 bps) = Inr lines"
    and "artists ax = concat lines" and "title_name ax = Network profile"
  using assms
  by (auto simp: combined_axes_def and_then_eq_Inr dest!: where_profile_Inr)

lemma combined_figure_Inr:
  assumes "combined_figure t = Inr fig"
  obtains nps bps axs where "fig = Chart axs"
    and "network_profiles_of (filter_failed t) = Inr nps"
    and "byzantine_percentages_of (filter_failed t) = Inr bps"
    and "for_each (combined_axes (filter_failed t) bps) (enumerate 0 nps) = Inr axs"
  using assms
  by (auto simp: combined_figure_def Let_def and_then_eq_Inr split: if_splits)

lemma in_plotted_rows:
  "r \<in> set (plotted_rows fig) \<longleftrightarrow>
     (\<exists>ax\<in>set (figure_axes fig). \<exists>a\<in>set (artists ax). r \<in> set (artist_rows a))"
  by (auto simp: plotted_rows_def)

lemma in_series_in:
  "rs \<in> set (series_in fig ttl b) \<longleftrightarrow>
     (\<exists>ax\<in>set (figure_axes fig). title_name ax = ttl \<and>
        (\<exists>a\<in>set (artists ax). artist_percentage a = Some b \<and> rs = artist_rows a))"
  by (auto simp: series_in_def)

lemma rows_of_profile [simp]:
  "set (rows (of_profile profile d)) = {r \<in> set (rows d). profile \<noteq> None \<and> networkProfile r = profile}"
  by (auto simp: of_profile_def)

lemma combined_axes_nth:
  assumes "combined_figure t = Inr fig"
  obtains nps bps axs where "fig = Chart axs"
    and "set nps = networkProfile ` set (rows (filter_failed t))"
    and "set bps = byzantinePercentage ` set (rows (filter_failed t))"
    and "length axs = length nps"
    and "\<And>j. j < length nps \<Longrightarrow> title_name (axs ! j) = Network (nps ! j)"
    and "\<And>j a. j < length nps \<Longrightarrow> a \<in> set (artists (axs ! j)) \<longleftrightarrow>
          (\<exists>k<length bps. grp (of_profile (nps ! j) (filter_failed t)) (bps ! k) \<noteq> [] \<and>
             a = errorbar (bps ! k) (k mod 7) (j = 0) (grp (of_profile (nps ! j) (filter_failed t)) (bps ! k)))"
proof -
  from assms obtain nps bps axs where fig: "fig = Chart axs"
    and nps: "network_profiles_of (filter_failed t) = Inr nps"
    and bps: "byzantine_percentages_of (filter_failed t) = Inr bps"
    and axs: "for_each (combined_axes (filter_failed t) bps) (enumerate 0 nps) = Inr axs"
    by (rule combined_figure_Inr)
  from for_each_Inr [OF axs] have len: "length axs = length nps"
    and nth: "\<And>j. j < length nps \<Longrightarrow> combined_axes (filter_failed t) bps (j, nps ! j) = Inr (axs ! j)"
    by (auto simp: nth_enumerate_eq)
  show ?thesis
  proof (rule that [OF fig _ _ len])
    show "set nps = networkProfile ` set (rows (filter_failed t))"
      by (rule network_profiles_of_Inr [OF nps])
    show "set bps = byzantinePercentage ` set (rows (filter_failed t))"
      using byzantine_percentages_of_Inr [OF bps] by simp
  next
    fix j assume "j < length nps"
    from nth [OF this] show "title_name (axs ! j) = Network (nps ! j)"
      by (rule combined_axes_Inr)
  next
    fix j a assume "j < length nps"
    from nth [OF this] obtain lines where
      lines: "for_each (errorbar_line (of_profile (nps ! j) (filter_failed t)) (j = 0)) (enumerate 0 bps) = Inr lines"
      and ax: "artists (axs ! j) = concat lines"
      unfolding of_profile_def by (rule combined_axes_Inr)
    show "a \<in> set (artists (axs ! j)) \<longleftrightarrow>
          (\<exists>k<length bps. grp (of_profile (nps ! j) (filter_failed t)) (bps ! k) \<noteq> [] \<and>
             a = errorbar (bps ! k) (k mod 7) (j = 0) (grp (of_profile (nps ! j) (filter_failed t)) (bps ! k)))"
      unfolding ax errorbar_lines [OF lines] by simp
  qed
qed

lemma combined_plotted_rows:
  assumes "combined_figure t = Inr fig"
  shows "set (plotted_rows fig) = {r \<in> set (rows (filter_failed t)). networkProfile r \<noteq> None}"
proof -
  from assms obtain nps bps axs where fig: "fig = Chart axs"
    and nps: "set nps = networkProfile ` set (rows (filter_failed t))"
    and bps: "set bps = byzantinePercentage ` set (rows (filter_failed t))"
    and len: "length axs = length nps"
    and art: "\<And>j a. j < length nps \<Longrightarrow> a \<in> set (artists (axs ! j)) \<longleftrightarrow>
          (\<exists>k<length bps. grp (of_profile (nps ! j) (filter_failed t)) (bps ! k) \<noteq> [] \<and>
             a = errorbar (bps ! k) (k mod 7) (j = 0) (grp (of_profile (nps ! j) (filter_failed t)) (bps ! k)))"
    by (rule combined_axes_nth) blast
  show ?thesis
  proof (intro set_eqI iffI)
    fix r assume "r \<in> set (plotted_rows fig)"
    then obtain ax a where "ax \<in> set axs" "a \<in> set (artists ax)" and r: "r \<in> set (artist_rows a)"
      by (auto simp: in_plotted_rows fig)
    then obtain j where j: "j < length nps" and a: "a \<in> set (artists (axs ! j))"
      using len by (auto simp: in_set_conv_nth)
    from a obtain k where "a = errorbar (bps ! k) (k mod 7) (j = 0) (grp (of_profile (nps ! j) (filter_failed t)) (bps ! k))"
      unfolding art [OF j] by blast
    with r show "r \<in> {r \<in> set (rows (filter_failed t)). networkProfile r \<noteq> None}" by auto
  next
    fix r assume "r \<in> {r \<in> set (rows (filter_failed t)). networkProfile r \<noteq> None}"
    then have r: "r \<in> set (rows (filter_failed t))" "networkProfile r \<noteq> None" by auto
    then obtain j where j: "j < length nps" "nps ! j = networkProfile r"
      using nps by (metis image_eqI in_set_conv_nth)
    from r obtain k where k: "k < length bps" "bps ! k = byzantinePercentage r"
      using bps by (metis image_eqI in_set_conv_nth)
    let ?g = "grp (of_profile (nps ! j) (filter_failed t)) (bps ! k)"
    from r j k have rg: "r \<in> set ?g" by simp
    then have "?g \<noteq> []" by (metis empty_iff empty_set)
    with k have "errorbar (bps ! k) (k mod 7) (j = 0) ?g \<in> set (artists (axs ! j))"
      unfolding art [OF j(1)] by blast
    moreover from j len have "axs ! j \<in> set axs" by simp
    ultimately show "r \<in> set (plotted_rows fig)"
      using rg unfolding in_plotted_rows fig by (metis artist_rows.simps(1) figure_axes.simps(1))
  qed
qed

lemma scatter_lines_rows:
  assumes "for_each (scatter_points d i) (enumerate n bps) = Inr lines"
  shows "(\<exists>a\<in>set (concat lines). r \<in> set (artist_rows a)) \<longleftrightarrow>
     (r \<in> set (rows d) \<and> byzantinePercentage r \<in> set bps)"
proof
  assume "\<exists>a\<in>set (concat lines). r \<in> set (artist_rows a)"
  then obtain a where "a \<in> set (concat lines)" and r: "r \<in> set (artist_rows a)" by blast
  then obtain j where "j < length bps"
    "a = scatter (bps ! j) (i mod 4) ((n + j) mod 4) (n + j = 0) (grp d (bps ! j))
       \<or> a = plot3d (i mod 4) (grp d (bps ! j))"
    unfolding scatter_lines [OF assms] by blast
  with r show "r \<in> set (rows d) \<and> byzantinePercentage r \<in> set bps" by auto
next
  assume r: "r \<in> set (rows d) \<and> byzantinePercentage r \<in> set bps"
  then obtain j where j: "j < length bps" "bps ! j = byzantinePercentage r"
    by (auto simp: in_set_conv_nth)
  let ?a = "plot3d (i mod 4) (grp d (bps ! j))"
  from r j have "grp d (bps ! j) \<noteq> []" using grp_not_Nil [of r d "bps ! j"] by simp
  with j have "?a \<in> set (concat lines)" unfolding scatter_lines [OF assms] by blast
  moreover from r j have "r \<in> set (artist_rows ?a)" by simp
  ultimately show "\<exists>a\<in>set (concat lines). r \<in> set (artist_rows a)" by blast
qed

lemma time_per_node_lines_rows:
  assumes "for_each (time_per_node_line d) (enumerate n bps) = Inr lines"
  shows "(\<exists>a\<in>set (concat lines). r \<in> set (artist_rows a)) \<longleftrightarrow>
     (r \<in> set (rows d) \<and> byzantinePercentage r \<in> set bps)"
proof
  assume "\<exists>a\<in>set (concat lines). r \<in> set (artist_rows a)"
  then obtain a where "a \<in> set (concat lines)" and r: "r \<in> set (artist_rows a)" by blast
  then obtain j where "j < length bps"
    "a = plot_time_per_node (bps ! j) ((n + j) mod 7) (grp d (bps ! j))"
    unfolding time_per_node_lines [OF assms] by blast
  with r show "r \<in> set (rows d) \<and> byzantinePercentage r \<in> set bps" by auto
next
  assume r: "r \<in> set (rows d) \<and> byzantinePercentage r \<in> set bps"
  then obtain j where j: "j < length bps" "bps ! j = byzantinePercentage r"
    by (auto simp: in_set_conv_nth)
  let ?a = "plot_time_per_node (bps ! j) ((n + j) mod 7) (grp d (bps ! j))"
  from r j have "grp d (bps ! j) \<noteq> []" using grp_not_Nil [of r d "bps ! j"] by simp
  with j have "?a \<in> set (concat lines)" unfolding time_per_node_lines [OF assms] by blast
  moreover from r j have "r \<in> set (artist_rows ?a)" by simp
  ultimately show "\<exists>a\<in>set (concat lines). r \<in> set (artist_rows a)" by blast
qed

lemma profile_scatter_Inr:
  assumes "profile_scatter d bps (i, profile) = Inr as"
  obtains lines where "for_each (scatter_points (of_profile profile d) i) (enumerate 0 bps) = Inr lines"
    and "as = concat lines"
  using assms
  by (auto simp: profile_scatter_def of_profile_def and_then_eq_Inr dest!: where_profile_Inr)

lemma three_d_figure_Inr:
  assumes "three_d_figure t = Inr fig"
  obtains nps bps points ax where "fig = Chart [ax]" and "artists ax = concat points"
    and "network_profiles_of (filter_failed t) = Inr nps"
    and "byzantine_percentages_of (filter_failed t) = Inr bps"
    and "for_each (profile_scatter (filter_failed t) bps) (enumerate 0 nps) = Inr points"
  using assms
  by (auto simp: three_d_figure_def Let_def and_then_eq_Inr)

lemma three_d_plotted_rows:
  assumes "three_d_figure t = Inr fig"
  shows "set (plotted_rows fig) = {r \<in> set (rows (filter_failed t)). networkProfile r \<noteq> None}"
proof -
  let ?d = "filter_failed t"
  from assms obtain nps bps points ax where fig: "fig = Chart [ax]" and ax: "artists ax = concat points"
    and nps: "network_profiles_of ?d = Inr nps"
    and bps: "byzantine_percentages_of ?d = Inr bps"
    and points: "for_each (profile_scatter ?d bps) (enumerate 0 nps) = Inr points"
    by (rule three_d_figure_Inr)
  from for_each_Inr [OF points] have len: "length points = length nps"
    and nth: "\<And>j. j < length nps \<Longrightarrow> profile_scatter ?d bps (j, nps ! j) = Inr (points ! j)"
    by (auto simp: nth_enumerate_eq)
  have set_nps: "set nps = networkProfile ` set (rows ?d)"
    by (rule network_profiles_of_Inr [OF nps])
  have set_bps: "set bps = byzantinePercentage ` set (rows ?d)"
    using byzantine_percentages_of_Inr [OF bps] by simp
  have pt: "(\<exists>a\<in>set (points ! j). r \<in> set (artist_rows a)) \<longleftrightarrow>
        (r \<in> set (rows (of_profile (nps ! j) ?d)) \<and> byzantinePercentage r \<in> set bps)"
    if "j < length nps" for j r
  proof -
    from nth [OF that] obtain lines where
      lines: "for_each (scatter_points (of_profile (nps ! j) ?d) j) (enumerate 0 bps) = Inr lines"
      and eq: "points ! j = concat lines"
      by (rule profile_scatter_Inr)
    show ?thesis unfolding eq by (rule scatter_lines_rows [OF lines])
  qed
  show ?thesis
  proof (intro set_eqI iffI)
    fix r assume "r \<in> set (plotted_rows fig)"
    then obtain as a where "as \<in> set points" "a \<in> set as" and r: "r \<in> set (artist_rows a)"
      by (auto simp: in_plotted_rows fig ax)
    then obtain j where j: "j < length nps" and a: "a \<in> set (points ! j)"
      using len by (auto simp: in_set_conv_nth)
    from a r have "\<exists>a\<in>set (points ! j). r \<in> set (artist_rows a)" by blast
    then show "r \<in> {r \<in> set (rows ?d). networkProfile r \<noteq> None}"
      unfolding pt [OF j] by auto
  next
    fix r assume "r \<in> {r \<in> set (rows ?d). networkProfile r \<noteq> None}"
    then have r: "r \<in> set (rows ?d)" "networkProfile r \<noteq> None" by auto
    then obtain j where j: "j < length nps" "nps ! j = networkProfile r"
      using set_nps by (metis image_eqI in_set_conv_nth)
    from r j have "r \<in> set (rows (of_profile (nps ! j) ?d)) \<and> byzantinePercentage r \<in> set bps"
      by (simp add: set_bps)
    then obtain a where "a \<in> set (points ! j)" "r \<in> set (artist_rows a)"
      unfolding pt [OF j(1), symmetric] by blast
    moreover from j len have "points ! j \<in> set points" by simp
    ultimately show "r \<in> set (plotted_rows fig)"
      unfolding in_plotted_rows fig by (auto simp: ax)
  qed
qed

lemma grp_Nil_iff: "(grp d p = []) = (\<forall>r\<in>set (rows d). byzantinePercentage r \<noteq> p)"
  by (simp add: grp_def filter_empty_conv)

lemma grid_row_Inr:
  assumes "grid_row d bps (i, profile) = Inr cs"
  shows "cs = map (cell_axes d profile) bps"
proof -
  from assms have cs: "for_each (grid_cell d (of_profile profile d) profile) (enumerate 0 bps) = Inr cs"
    by (auto simp: grid_row_def of_profile_def and_then_eq_Inr dest!: where_profile_Inr)
  from for_each_Inr [OF cs] have len: "length cs = length bps"
    and nth: "\<And>k. k < length bps \<Longrightarrow> grid_cell d (of_profile profile d) profile (k, bps ! k) = Inr (cs ! k)"
    by (auto simp: nth_enumerate_eq)
  show ?thesis
  proof (rule nth_equalityI)
    show "length cs = length (map (cell_axes d profile) bps)" using len by simp
  next
    fix k assume "k < length cs"
    then have k: "k < length bps" using len by simp
    from grid_cell_Inr [OF nth [OF k]] k
    show "cs ! k = map (cell_axes d profile) bps ! k" by (simp add: cell_axes_def)
  qed
qed

lemma comprehensive_figure_Inr:
  assumes "comprehensive_figure t = Inr fig"
  obtains nps bps where "set nps = networkProfile ` set (rows (filter_failed t))"
    and "set bps = byzantinePercentage ` set (rows (filter_failed t))"
    and "fig = Chart (concat (map (\<lambda>profile. map (cell_axes (filter_failed t) profile) bps) nps))"
proof -
  let ?d = "filter_failed t"
  from assms obtain nps bps grid where fig: "fig = Chart (concat grid)"
    and nps: "network_profiles_of ?d = Inr nps"
    and bps: "byzantine_percentages_of ?d = Inr bps"
    and grid: "for_each (grid_row ?d bps) (enumerate 0 nps) = Inr grid"
    by (auto simp: comprehensive_figure_def Let_def and_then_eq_Inr split: if_splits)
  from for_each_Inr [OF grid] have len: "length grid = length nps"
    and nth: "\<And>j. j < length nps \<Longrightarrow> grid_row ?d bps (j, nps ! j) = Inr (grid ! j)"
    by (auto simp: nth_enumerate_eq)
  have "grid = map (\<lambda>profile. map (cell_axes ?d profile) bps) nps"
  proof (rule nth_equalityI)
    show "length grid = length (map (\<lambda>profile. map (cell_axes ?d profile) bps) nps)"
      using len by simp
  next
    fix j assume "j < length grid"
    then have j: "j < length nps" using len by simp
    from grid_row_Inr [OF nth [OF j]] j
    show "grid ! j = map (\<lambda>profile. map (cell_axes ?d profile) bps) nps ! j" by simp
  qed
  with fig have "fig = Chart (concat (map (\<lambda>profile. map (cell_axes ?d profile) bps) nps))" by simp
  moreover have "set nps = networkProfile ` set (rows ?d)"
    by (rule network_profiles_of_Inr [OF nps])
  moreover have "set bps = byzantinePercentage ` set (rows ?d)"
    using byzantine_percentages_of_Inr [OF bps] by simp
  ultimately show ?thesis using that by blast
qed

lemma comprehensive_plotted_rows:
  assumes "comprehensive_figure t = Inr fig"
  shows "set (plotted_rows fig) = {r \<in> set (rows (filter_failed t)). networkProfile r \<noteq> None}"
proof -
  let ?d = "filter_failed t"
  from assms obtain nps bps where nps: "set nps = networkProfile ` set (rows ?d)"
    and bps: "set bps = byzantinePercentage ` set (rows ?d)"
    and fig: "fig = Chart (concat (map (\<lambda>profile. map (cell_axes ?d profile) bps) nps))"
    by (rule comprehensive_figure_Inr)
  have cell: "(\<exists>a\<in>set (artists (cell_axes ?d profile p)). r \<in> set (artist_rows a)) \<longleftrightarrow>
      r \<in> set (grp (of_profile profile ?d) p)" for profile p r
    by (auto simp: cell_axes_def grp_Nil_iff)
  have "r \<in> set (plotted_rows fig) \<longleftrightarrow>
      (\<exists>profile\<in>set nps. \<exists>p\<in>set bps. r \<in> set (grp (of_profile profile ?d) p))" for r
    unfolding in_plotted_rows fig using cell by auto
  then show ?thesis using nps bps by auto
qed

lemma normalized_scaling_lines_Inr:
  assumes "normalized_scaling_lines t = Inr (d, fastest, pd, lines)"
  shows "d = filter_failed t \<and> fastest_profile d = Inr fastest \<and> pd = of_profile fastest d
     \<and> (\<forall>r. (\<exists>a\<in>set lines. r \<in> set (artist_rows a)) \<longleftrightarrow>
            (r \<in> set (rows d) \<and> fastest \<noteq> None \<and> networkProfile r = fastest))"
proof -
  from assms obtain bps ls where d: "d = filter_failed t"
    and bps: "byzantine_percentages_of d = Inr bps"
    and fp: "fastest_profile d = Inr fastest" and pd: "pd = of_profile fastest d"
    and ls: "for_each (time_per_node_line pd) (enumerate 0 bps) = Inr ls"
    and lines: "lines = concat ls"
    by (auto simp: normalized_scaling_lines_def Let_def of_profile_def and_then_eq_Inr
        dest!: where_profile_Inr)
  have set_bps: "set bps = byzantinePercentage ` set (rows d)"
    using byzantine_percentages_of_Inr [OF bps] by simp
  have "(\<exists>a\<in>set lines. r \<in> set (artist_rows a)) \<longleftrightarrow>
            (r \<in> set (rows d) \<and> fastest \<noteq> None \<and> networkProfile r = fastest)" for r
    unfolding lines time_per_node_lines_rows [OF ls] pd using set_bps by auto
  with d fp pd show ?thesis by blast
qed

section \<open>Charts that are drawn without an exception\<close>

lemma errorbar_line_total:
  assumes "''byzantinePercentage'' \<in> set (columns d)" "''nodeNum'' \<in> set (columns d)"
    "''meanTime'' \<in> set (columns d)" "''stdTime'' \<in> set (columns d)"
  shows "\<exists>as. errorbar_line d lab ip = Inr as"
  using assms
  by (cases ip) (simp add: errorbar_line_def where_percentage_def sort_values_nodeNum_def require_def)

lemma scatter_points_total:
  assumes "''byzantinePercentage'' \<in> set (columns d)" "''nodeNum'' \<in> set (columns d)"
    "''meanTime'' \<in> set (columns d)"
  shows "\<exists>as. scatter_points d i jp = Inr as"
  using assms
  by (cases jp) (simp add: scatter_points_def where_percentage_def sort_values_nodeNum_def require_def)

lemma time_per_node_line_total:
  assumes "''byzantinePercentage'' \<in> set (columns d)" "''nodeNum'' \<in> set (columns d)"
    "''meanTime'' \<in> set (columns d)"
  shows "\<exists>as. time_per_node_line d ip = Inr as"
  using assms
  by (cases ip) (simp add: time_per_node_line_def where_percentage_def sort_values_nodeNum_def require_def)

lemma grid_cell_total:
  assumes "''byzantinePercentage'' \<in> set (columns d)" "''nodeNum'' \<in> set (columns d)"
    "''meanTime'' \<in> set (columns d)" "''stdTime'' \<in> set (columns d)" "''meanTime'' \<in> set (columns a)"
  shows "\<exists>ax. grid_cell a d profile jp = Inr ax"
  using assms
  by (cases jp) (simp add: grid_cell_def where_percentage_def sort_values_nodeNum_def require_def)

lemma byzantine_percentages_of_total:
  "''byzantinePercentage'' \<in> set (columns d) \<Longrightarrow> \<exists>bps. byzantine_percentages_of d = Inr bps"
  by (simp add: byzantine_percentages_of_def col_def)

lemma network_profiles_of_total:
  assumes "''networkProfile'' \<in> set (columns d)" "\<forall>r\<in>set (rows d). networkProfile r \<noteq> None"
  shows "\<exists>nps. network_profiles_of d = Inr nps"
proof -
  from assms(2) have "None \<notin> set (unique (map networkProfile (rows d)))"
    by (auto simp: unique_def)
  with assms(1) show ?thesis
    by (simp add: network_profiles_of_def col_def sorted_profiles_def)
qed

lemma title_delay_total:
  "rows d \<noteq> [] \<or> name \<notin> set (columns d) \<Longrightarrow> \<exists>x. title_delay name f d = Inr x"
  by (auto simp: title_delay_def split: list.splits)

lemma columns_of_profile [simp]: "columns (of_profile profile d) = columns d"
  by (simp add: of_profile_def)

lemma where_profile_of_profile:
  "''networkProfile'' \<in> set (columns d) \<Longrightarrow> where_profile profile d = Inr (of_profile profile d)"
  by (simp add: where_profile_def of_profile_def require_def)

lemma byzantine_impact_figure_total:
  assumes "''byzantinePercentage'' \<in> set (columns t)" "''nodeNum'' \<in> set (columns t)"
    "''meanTime'' \<in> set (columns t)" "''stdTime'' \<in> set (columns t)"
    and "rows (filter_failed t) \<noteq> []"
  shows "\<exists>fig. byzantine_impact_figure t name = Inr fig"
proof -
  let ?d = "filter_failed t"
  obtain bps where bps: "byzantine_percentages_of ?d = Inr bps"
    using byzantine_percentages_of_total [of ?d] assms(1) by auto
  obtain lines where lines: "for_each (errorbar_line ?d True) (enumerate 0 bps) = Inr lines"
    using for_each_total [of "enumerate 0 bps" "errorbar_line ?d True"]
      errorbar_line_total [of ?d] assms(1-4) by auto
  obtain md where md: "title_delay ''networkMean'' networkMean ?d = Inr md"
    using title_delay_total [of ?d] assms(5) by blast
  obtain sd where sd: "title_delay ''networkStd'' networkStd ?d = Inr sd"
    using title_delay_total [of ?d] assms(5) by blast
  show ?thesis
    using bps lines md sd assms(2,3)
    by (simp add: byzantine_impact_figure_def Let_def require_def)
qed


lemma in_set_not_Nil: "x \<in> set xs \<Longrightarrow> xs \<noteq> []"
  by auto

lemma combined_figure_total:
  assumes "''networkProfile'' \<in> set (columns t)" "''byzantinePercentage'' \<in> set (columns t)"
    "''nodeNum'' \<in> set (columns t)" "''meanTime'' \<in> set (columns t)" "''stdTime'' \<in> set (columns t)"
    and "rows (filter_failed t) \<noteq> []"
    and "\<forall>r\<in>set (rows (filter_failed t)). networkProfile r \<noteq> None"
  shows "\<exists>fig. combined_figure t = Inr fig"
proof -
  let ?d = "filter_failed t"
  obtain nps where nps: "network_profiles_of ?d = Inr nps"
    using network_profiles_of_total [of ?d] assms(1,7) by auto
  obtain bps where bps: "byzantine_percentages_of ?d = Inr bps"
    using byzantine_percentages_of_total [of ?d] assms(2) by auto
  have set_nps: "set nps = networkProfile ` set (rows ?d)"
    by (rule network_profiles_of_Inr [OF nps])
  with assms(6) have "nps \<noteq> []" by (cases "rows ?d") auto
  have "\<exists>ax. combined_axes ?d bps ip = Inr ax" if "ip \<in> set (enumerate 0 nps)" for ip
  proof -
    obtain i profile where ip: "ip = (i, profile)" by (cases ip)
    with that have "profile \<in> set nps" by (auto simp: in_set_enumerate_eq)
    then obtain r where r: "r \<in> set (rows ?d)" "networkProfile r = profile"
      using set_nps by auto
    with assms(7) have "r \<in> set (rows (of_profile profile ?d))" by auto
    then have ne: "rows (of_profile profile ?d) \<noteq> []" by (rule in_set_not_Nil)
    obtain lines where "for_each (errorbar_line (of_profile profile ?d) (i = 0)) (enumerate 0 bps) = Inr lines"
      using for_each_total [of "enumerate 0 bps" "errorbar_line (of_profile profile ?d) (i = 0)"]
        errorbar_line_total [of "of_profile profile ?d"] assms(2-5) by auto
    moreover obtain md where "title_delay ''networkMean'' networkMean (of_profile profile ?d) = Inr md"
      using title_delay_total [of "of_profile profile ?d"] ne by blast
    moreover obtain sd where "title_delay ''networkStd'' networkStd (of_profile profile ?d) = Inr sd"
      using title_delay_total [of "of_profile profile ?d"] ne by blast
    ultimately show ?thesis
      using assms(1,3,4) by (simp add: ip combined_axes_def where_profile_of_profile require_def)
  qed
  then obtain axs where "for_each (combined_axes ?d bps) (enumerate 0 nps) = Inr axs"
    using for_each_total [of "enumerate 0 nps" "combined_axes ?d bps"] by auto
  with nps bps \<open>nps \<noteq> []\<close> show ?thesis
    by (simp add: combined_figure_def Let_def)
qed

lemma three_d_figure_total:
  assumes "''networkProfile'' \<in> set (columns t)" "''byzantinePercentage'' \<in> set (columns t)"
    "''nodeNum'' \<in> set (columns t)" "''meanTime'' \<in> set (columns t)"
    and "\<forall>r\<in>set (rows (filter_failed t)). networkProfile r \<noteq> None"
  shows "\<exists>fig. three_d_figure t = Inr fig"
proof -
  let ?d = "filter_failed t"
  obtain nps where nps: "network_profiles_of ?d = Inr nps"
    using network_profiles_of_total [of ?d] assms(1,5) by auto
  obtain bps where bps: "byzantine_percentages_of ?d = Inr bps"
    using byzantine_percentages_of_total [of ?d] assms(2) by auto
  have "\<exists>as. profile_scatter ?d bps ip = Inr as" for ip
  proof -
    obtain i profile where ip: "ip = (i, profile)" by (cases ip)
    obtain lines where "for_each (scatter_points (of_profile profile ?d) i) (enumerate 0 bps) = Inr lines"
      using for_each_total [of "enumerate 0 bps" "scatter_points (of_profile profile ?d) i"]
        scatter_points_total [of "of_profile profile ?d"] assms(2-4) by auto
    then show ?thesis
      using assms(1) by (simp add: ip profile_scatter_def where_profile_of_profile)
  qed
  then obtain points where "for_each (profile_scatter ?d bps) (enumerate 0 nps) = Inr points"
    using for_each_total [of "enumerate 0 nps" "profile_scatter ?d bps"] by auto
  with nps bps show ?thesis
    by (simp add: three_d_figure_def Let_def)
qed

lemma comprehensive_figure_total:
  assumes "''networkProfile'' \<in> set (columns t)" "''byzantinePercentage'' \<in> set (columns t)"
    "''nodeNum'' \<in> set (columns t)" "''meanTime'' \<in> set (columns t)" "''stdTime'' \<in> set (columns t)"
    and "rows (filter_failed t) \<noteq> []"
    and "\<forall>r\<in>set (rows (filter_failed t)). networkProfile r \<noteq> None"
  shows "\<exists>fig. comprehensive_figure t = Inr fig"
proof -
  let ?d = "filter_failed t"
  obtain nps where nps: "network_profiles_of ?d = Inr nps"
    using network_profiles_of_total [of ?d] assms(1,7) by auto
  obtain bps where bps: "byzantine_percentages_of ?d = Inr bps"
    using byzantine_percentages_of_total [of ?d] assms(2) by auto
  have "set nps = networkProfile ` set (rows ?d)"
    by (rule network_profiles_of_Inr [OF nps])
  with assms(6) have nps_ne: "nps \<noteq> []" by (cases "rows ?d") auto
  have "set bps = byzantinePercentage ` set (rows ?d)"
    using byzantine_percentages_of_Inr [OF bps] by simp
  with assms(6) have bps_ne: "bps \<noteq> []" by (cases "rows ?d") auto
  have "\<exists>cs. grid_row ?d bps ip = Inr cs" for ip
  proof -
    obtain i profile where ip: "ip = (i, profile)" by (cases ip)
    obtain cs where "for_each (grid_cell ?d (of_profile profile ?d) profile) (enumerate 0 bps) = Inr cs"
      using for_each_total [of "enumerate 0 bps" "grid_cell ?d (of_profile profile ?d) profile"]
        grid_cell_total [of "of_profile profile ?d" ?d] assms(2-5) by auto
    then show ?thesis
      using assms(1) by (simp add: ip grid_row_def where_profile_of_profile)
  qed
  then obtain grid where "for_each (grid_row ?d bps) (enumerate 0 nps) = Inr grid"
    using for_each_total [of "enumerate 0 nps" "grid_row ?d bps"] by auto
  with nps bps nps_ne bps_ne show ?thesis
    by (simp add: comprehensive_figure_def Let_def)
qed

lemma load_data_cases:
  obtains (missing) w' where "load_data file w = (Inr None, w')" "fs w' = fs w"
  | (found) t where "load_data file w = (Inr (Some t), w)"
      "map_of (fs w) (os_path_join RESULTS_DIR file) = Some (Csv t)"
  | (raised) e where "load_data file w = (Inl e, w)"
proof (cases "map_of (fs w) (os_path_join RESULTS_DIR file)")
  case None
  then have "load_data file w = (Inr None, w\<lparr>stdout := stdout w @ [''Warning: File not found: '' @ os_path_join RESULTS_DIR file]\<rparr>)"
    by (simp add: load_data_def os_path_exists_def print_def then_do_def pure_def Let_def)
  then show ?thesis by (rule missing) simp
next
  case (Some n)
  then show ?thesis
  proof (cases n)
    case (Csv t)
    with Some have a: "load_data file w = (Inr (Some t), w)"
      by (simp add: load_data_def os_path_exists_def read_csv_def lift_def Let_def)
    from Some Csv have b: "map_of (fs w) (os_path_join RESULTS_DIR file) = Some (Csv t)" by simp
    show ?thesis by (rule found [OF a b])
  qed (auto intro!: raised simp: load_data_def os_path_exists_def read_csv_def lift_def Let_def)
qed

lemma normalized_scaling_figure_raises:
  assumes "''time_per_node'' \<notin> set (columns t)"
  shows "\<exists>e. normalized_scaling_figure t = Inl e"
proof (cases "normalized_scaling_lines t")
  case (Inl e)
  then show ?thesis by (simp add: normalized_scaling_figure_def)
next
  case (Inr v)
  obtain d fastest pd lines where v: "v = (d, fastest, pd, lines)" by (cases v)
  from normalized_scaling_lines_Inr [OF Inr [unfolded v]]
  have "columns pd = columns t" by simp
  with assms Inr v show ?thesis
    by (cases "require ''nodeNum'' d") (simp_all add: normalized_scaling_figure_def require_def)
qed

section \<open>Failed trials\<close>

lemma heatmap_jobs_without_failed:
  "''failure'' \<in> set (columns t) \<Longrightarrow> heatmap_jobs (without_failed t) = heatmap_jobs t"
  by (simp add: heatmap_jobs_def filter_failed_without_failed)

lemma sample_rows: "rows (filter_failed sample_table) = [wan_4, lan_4, lan_4_again]"
  by (simp add: sample_table_def all_columns_def filter_failed_def select_def fillna_False_def
      wan_4_def lan_4_def lan_8_failed_def lan_4_again_def)

lemma sample_columns: "columns sample_table = all_columns"
  by (simp add: sample_table_def)

lemma sample_profiles: "\<forall>r\<in>set (rows (filter_failed sample_table)). networkProfile r \<noteq> None"
  by (simp add: sample_rows wan_4_def lan_4_def lan_4_again_def)

lemma fastest_profile_total:
  assumes "''networkProfile'' \<in> set (columns d)" "rows d \<noteq> []"
    "\<forall>r\<in>set (rows d). networkProfile r \<noteq> None"
  shows "\<exists>p. fastest_profile d = Inr (Some p)"
proof -
  obtain nps where nps: "network_profiles_of d = Inr nps"
    using network_profiles_of_total [OF assms(1,3)] by auto
  have set_nps: "set nps = networkProfile ` set (rows d)"
    by (rule network_profiles_of_Inr [OF nps])
  with assms(2) obtain q qs where q: "nps = q # qs" by (cases nps; cases "rows d") auto
  then have "q \<in> networkProfile ` set (rows d)" using set_nps by auto
  with assms(3) have "q \<noteq> None" by auto
  with nps q show ?thesis by (auto simp: fastest_profile_def)
qed

lemma normalized_scaling_lines_total:
  assumes "''networkProfile'' \<in> set (columns t)" "''byzantinePercentage'' \<in> set (columns t)"
    "''nodeNum'' \<in> set (columns t)" "''meanTime'' \<in> set (columns t)"
    and "rows (filter_failed t) \<noteq> []"
    and "\<forall>r\<in>set (rows (filter_failed t)). networkProfile r \<noteq> None"
  shows "\<exists>p lines. normalized_scaling_lines t
           = Inr (filter_failed t, Some p, of_profile (Some p) (filter_failed t), lines)"
proof -
  let ?d = "filter_failed t"
  obtain bps where bps: "byzantine_percentages_of ?d = Inr bps"
    using byzantine_percentages_of_total [of ?d] assms(2) by auto
  obtain p where p: "fastest_profile ?d = Inr (Some p)"
    using fastest_profile_total [of ?d] assms(1,5,6) by auto
  obtain ls where "for_each (time_per_node_line (of_profile (Some p) ?d)) (enumerate 0 bps) = Inr ls"
    using for_each_total [of "enumerate 0 bps" "time_per_node_line (of_profile (Some p) ?d)"]
      time_per_node_line_total [of "of_profile (Some p) ?d"] assms(2-4) by auto
  with bps p assms(1) show ?thesis
    by (simp add: normalized_scaling_lines_def Let_def where_profile_of_profile)
qed

text \<open>
  C1. For every table with a failure column, a row whose failure flag is true is excluded
  before aggregation and is therefore absent from every view derived from the table: it
  is not among the rows of any line of the Byzantine impact plot, the combined plot, the
  normalized scaling plot, the 3D scatter or the comprehensive grid, and the heat maps are
  those of the table with the failed rows deleted.
\<close>

theorem failed_rows_absent:
  assumes "''failure'' \<in> set (columns t)" and "failed r"
  shows "(\<forall>name fig. byzantine_impact_figure t name = Inr fig \<longrightarrow> r \<notin> set (plotted_rows fig))
    \<and> (\<forall>fig. combined_figure t = Inr fig \<longrightarrow> r \<notin> set (plotted_rows fig))
    \<and> (\<forall>d p pd lines. normalized_scaling_lines t = Inr (d, p, pd, lines)
          \<longrightarrow> r \<notin> set (concat (map artist_rows lines)))
    \<and> (\<forall>fig. three_d_figure t = Inr fig \<longrightarrow> r \<notin> set (plotted_rows fig))
    \<and> (\<forall>fig. comprehensive_figure t = Inr fig \<longrightarrow> r \<notin> set (plotted_rows fig))
    \<and> heatmap_jobs (without_failed t) = heatmap_jobs t"
proof -
  have r: "r \<notin> set (rows (filter_failed t))"
    using assms by (simp add: rows_filter_failed)
  have "r \<notin> set (plotted_rows fig)" if "byzantine_impact_figure t name = Inr fig" for name fig
    using impact_plotted_rows [OF that] r by simp
  moreover have "r \<notin> set (plotted_rows fig)" if "combined_figure t = Inr fig" for fig
    using combined_plotted_rows [OF that] r by simp
  moreover have "r \<notin> set (concat (map artist_rows lines))"
    if "normalized_scaling_lines t = Inr (d, p, pd, lines)" for d p pd lines
    using normalized_scaling_lines_Inr [OF that] r by auto
  moreover have "r \<notin> set (plotted_rows fig)" if "three_d_figure t = Inr fig" for fig
    using three_d_plotted_rows [OF that] r by simp
  moreover have "r \<notin> set (plotted_rows fig)" if "comprehensive_figure t = Inr fig" for fig
    using comprehensive_plotted_rows [OF that] r by simp
  moreover note heatmap_jobs_without_failed [OF assms(1)]
  ultimately show ?thesis by blast
qed


theorem failed_rows_absent_witness:
  "''failure'' \<in> set (columns sample_table) \<and> failed lan_8_failed
    \<and> lan_8_failed \<in> set (rows sample_table)
    \<and> (\<exists>fig. byzantine_impact_figure sample_table ''lan_byzantine_impact.png'' = Inr fig
          \<and> lan_8_failed \<notin> set (plotted_rows fig))
    \<and> (\<exists>fig. combined_figure sample_table = Inr fig \<and> lan_8_failed \<notin> set (plotted_rows fig))
    \<and> (\<exists>d p pd lines. normalized_scaling_lines sample_table = Inr (d, p, pd, lines)
          \<and> lan_8_failed \<notin> set (concat (map artist_rows lines)))
    \<and> (\<exists>fig. three_d_figure sample_table = Inr fig \<and> lan_8_failed \<notin> set (plotted_rows fig))
    \<and> (\<exists>fig. comprehensive_figure sample_table = Inr fig \<and> lan_8_failed \<notin> set (plotted_rows fig))
    \<and> heatmap_jobs (without_failed sample_table) = heatmap_jobs sample_table"
proof -
  have c: "''failure'' \<in> set (columns sample_table)" "''networkProfile'' \<in> set (columns sample_table)"
    "''byzantinePercentage'' \<in> set (columns sample_table)" "''nodeNum'' \<in> set (columns sample_table)"
    "''meanTime'' \<in> set (columns sample_table)" "''stdTime'' \<in> set (columns sample_table)"
    by (simp_all add: sample_columns all_columns_def)
  have f: "failed lan_8_failed" by (simp add: failed_def lan_8_failed_def)
  have m: "lan_8_failed \<in> set (rows sample_table)" by (simp add: sample_table_def)
  have ne: "rows (filter_failed sample_table) \<noteq> []" by (simp add: sample_rows)
  note absent = failed_rows_absent [OF c(1) f]
  from byzantine_impact_figure_total [OF c(3,4,5,6) ne, of "''lan_byzantine_impact.png''"]
    combined_figure_total [OF c(2,3,4,5,6) ne sample_profiles]
    normalized_scaling_lines_total [OF c(2,3,4,5) ne sample_profiles]
    three_d_figure_total [OF c(2,3,4,5) sample_profiles]
    comprehensive_figure_total [OF c(2,3,4,5,6) ne sample_profiles]
    absent c(1) f m
  show ?thesis by blast
qed

section \<open>Heat maps\<close>

lemma pivot_table_Inr:
  assumes "pivot_table d = Inr pv"
  shows "pivot_at pv x y =
     (let ms = filter (\<lambda>r. nodeNum r = x \<and> byzantinePercentage r = y) (rows d)
      in if ms = [] then None else Some (mean (map meanTime ms)))"
proof -
  let ?f = "\<lambda>k. mean (map meanTime (filter (\<lambda>r. group_key r = k) (rows d)))"
  let ?keys = "unique (map group_key (rows d))"
  from assms have cells: "cells pv = map (\<lambda>k. (k, ?f k)) ?keys"
    by (auto simp: pivot_table_def Let_def and_then_eq_Inr)
  have keys: "set ?keys = group_key ` set (rows d)" by (simp add: unique_def)
  have key: "(group_key r = (x, y)) = (nodeNum r = x \<and> byzantinePercentage r = y)" for r
    by (auto simp: group_key_def)
  have "pivot_at pv x y = (if (x, y) \<in> set ?keys then Some (?f (x, y)) else None)"
    unfolding pivot_at_def cells by (simp add: map_of_map_restrict restrict_map_def)
  also have "(x, y) \<in> set ?keys \<longleftrightarrow> filter (\<lambda>r. nodeNum r = x \<and> byzantinePercentage r = y) (rows d) \<noteq> []"
  proof -
    have "(x, y) \<in> group_key ` set (rows d) \<longleftrightarrow> (\<exists>r\<in>set (rows d). group_key r = (x, y))"
      by (metis (no_types) image_iff)
    then show ?thesis unfolding keys by (simp add: filter_empty_conv key)
  qed
  finally show ?thesis by (simp add: key Let_def)
qed

lemma heatmap_figure_Inr:
  "heatmap_figure d profile = Inr (Heatmap pv md sd) \<Longrightarrow> pivot_table (of_profile profile d) = Inr pv"
  by (auto simp: heatmap_figure_def and_then_eq_Inr of_profile_def dest!: where_profile_Inr
      split: if_splits)

lemma heatmap_jobs_Inr:
  assumes "heatmap_jobs t = Inr jobs"
  shows "\<exists>nps. network_profiles_of (filter_failed t) = Inr nps
     \<and> jobs = map (\<lambda>profile. (profile, heatmap_figure (filter_failed t) profile)) nps"
  using assms by (auto simp: heatmap_jobs_def Let_def and_then_eq_Inr)

lemma filter_of_profile:
  "filter P (rows (of_profile (Some q) d)) = filter (\<lambda>r. networkProfile r = Some q \<and> P r) (rows d)"
  by (simp add: of_profile_def conj_commute)

lemma heatmap_figure_total:
  assumes "''networkProfile'' \<in> set (columns d)" "''meanTime'' \<in> set (columns d)"
    "''nodeNum'' \<in> set (columns d)" "''byzantinePercentage'' \<in> set (columns d)"
    and "r \<in> set (rows d)" "networkProfile r = Some q"
  shows "\<exists>pv md sd. heatmap_figure d (Some q) = Inr (Heatmap pv md sd)"
proof -
  let ?pd = "of_profile (Some q) d"
  from assms(5,6) have "r \<in> set (rows ?pd)" by simp
  then have ne: "rows ?pd \<noteq> []" by (rule in_set_not_Nil)
  obtain pv where pv: "pivot_table ?pd = Inr pv"
    using assms(2-4) by (simp add: pivot_table_def Let_def require_def)
  then have "cells pv = map (\<lambda>k. (k, mean (map meanTime (filter (\<lambda>r. group_key r = k) (rows ?pd)))))
      (unique (map group_key (rows ?pd)))"
    using assms(2-4) by (auto simp: pivot_table_def Let_def require_def)
  moreover have "unique (map group_key (rows ?pd)) \<noteq> []"
    using ne by (simp add: unique_def)
  ultimately have cells: "cells pv \<noteq> []" by simp
  obtain md where md: "title_delay ''networkMean'' networkMean ?pd = Inr md"
    using title_delay_total [of ?pd] ne by blast
  obtain sd where sd: "title_delay ''networkStd'' networkStd ?pd = Inr sd"
    using title_delay_total [of ?pd] ne by blast
  show ?thesis
    using pv cells md sd assms(1) by (simp add: heatmap_figure_def where_profile_of_profile)
qed

lemma heatmap_jobs_total:
  assumes "''networkProfile'' \<in> set (columns t)" "''meanTime'' \<in> set (columns t)"
    "''nodeNum'' \<in> set (columns t)" "''byzantinePercentage'' \<in> set (columns t)"
    and "\<forall>r\<in>set (rows (filter_failed t)). networkProfile r \<noteq> None"
    and "r \<in> set (rows (filter_failed t))" "networkProfile r = Some q"
  shows "\<exists>jobs pv md sd. heatmap_jobs t = Inr jobs \<and> (Some q, Inr (Heatmap pv md sd)) \<in> set jobs"
proof -
  let ?d = "filter_failed t"
  obtain nps where nps: "network_profiles_of ?d = Inr nps"
    using network_profiles_of_total [of ?d] assms(1,5) by auto
  have "set nps = networkProfile ` set (rows ?d)"
    by (rule network_profiles_of_Inr [OF nps])
  with assms(6,7) have q: "Some q \<in> set nps" by force
  obtain pv md sd where "heatmap_figure ?d (Some q) = Inr (Heatmap pv md sd)"
    using heatmap_figure_total [of ?d r q] assms by auto
  with q have "(Some q, Inr (Heatmap pv md sd))
      \<in> set (map (\<lambda>profile. (profile, heatmap_figure ?d profile)) nps)"
    by force
  with nps show ?thesis by (simp add: heatmap_jobs_def Let_def) blast
qed

lemma heatmap_pivot_at:
  assumes "heatmap_jobs t = Inr jobs" and "(Some q, Inr (Heatmap pv md sd)) \<in> set jobs"
  shows "pivot_at pv X Y =
     (let ms = filter (\<lambda>r. networkProfile r = Some q \<and> nodeNum r = X \<and> byzantinePercentage r = Y)
                 (non_failed_rows t)
      in if ms = [] then None else Some (sum_list (map meanTime ms) / of_nat (length ms)))"
proof -
  from heatmap_jobs_Inr [OF assms(1)] assms(2)
  have "heatmap_figure (filter_failed t) (Some q) = Inr (Heatmap pv md sd)" by auto
  then have "pivot_table (of_profile (Some q) (filter_failed t)) = Inr pv"
    by (rule heatmap_figure_Inr)
  from pivot_table_Inr [OF this, of X Y] show ?thesis
    by (simp add: filter_of_profile rows_filter_failed_non_failed mean_def Let_def)
qed


text \<open>
  C3. The value of a heat map's pivot at node count \<open>X\<close> and percentage \<open>Y\<close> is the
  arithmetic mean of \<open>meanTime\<close> over exactly the non-failed rows of the heat map's profile
  that have node count \<open>X\<close> and percentage \<open>Y\<close>; the pivot has no value there when no such
  row exists.
\<close>

theorem heatmap_cell_is_mean:
  assumes "heatmap_jobs t = Inr jobs" and "(Some q, Inr (Heatmap pv md sd)) \<in> set jobs"
  shows "pivot_at pv X Y =
     (let ms = filter (\<lambda>r. networkProfile r = Some q \<and> nodeNum r = X \<and> byzantinePercentage r = Y)
                 (non_failed_rows t)
      in if ms = [] then None else Some (sum_list (map meanTime ms) / of_nat (length ms)))"
  using assms by (rule heatmap_pivot_at)

theorem heatmap_cell_is_mean_witness:
  "\<exists>jobs pv md sd. heatmap_jobs sample_table = Inr jobs
     \<and> (Some ''lan'', Inr (Heatmap pv md sd)) \<in> set jobs
     \<and> pivot_at pv 4 0 = Some ((100 + 120) / 2) \<and> pivot_at pv 8 0 = None"
proof -
  have c: "''networkProfile'' \<in> set (columns sample_table)" "''meanTime'' \<in> set (columns sample_table)"
    "''nodeNum'' \<in> set (columns sample_table)" "''byzantinePercentage'' \<in> set (columns sample_table)"
    by (simp_all add: sample_columns all_columns_def)
  have "lan_4 \<in> set (rows (filter_failed sample_table))" "networkProfile lan_4 = Some ''lan''"
    by (simp_all add: sample_rows lan_4_def)
  from heatmap_jobs_total [OF c sample_profiles this]
  obtain jobs pv md sd where jobs: "heatmap_jobs sample_table = Inr jobs"
    and job: "(Some ''lan'', Inr (Heatmap pv md sd)) \<in> set jobs" by blast
  have rows: "non_failed_rows sample_table = [wan_4, lan_4, lan_4_again]"
    using sample_rows by (simp add: rows_filter_failed_non_failed)
  have "pivot_at pv 4 0 = Some ((100 + 120) / 2)" "pivot_at pv 8 0 = None"
    using heatmap_cell_is_mean [OF jobs job, of 4 0] heatmap_cell_is_mean [OF jobs job, of 8 0]
    by (simp_all add: rows wan_4_def lan_4_def lan_4_again_def)
  with jobs job show ?thesis by blast
qed

section \<open>Trials without a failure value\<close>



text \<open>
  With the downcast of pandas 2 the filter drops exactly the rows whose failure value is
  true. A row whose failure value is missing or false stays and is part of every view that
  is produced: it is among the rows of the Byzantine impact plot and, when it names its
  network profile, of the combined plot, the 3D scatter and the comprehensive grid, of the
  lines of the normalized scaling plot when its profile is the one plotted, and the heat
  map of its profile has a value at its node count and percentage.
\<close>

lemma retained_by_filter_failed:
  assumes "r \<in> set (rows t)" and "''failure'' \<notin> set (columns t) \<or> failure r \<noteq> Some True"
  shows "rows (filter_failed t) =
           (if ''failure'' \<in> set (columns t) then filter (\<lambda>r. failure r \<noteq> Some True) (rows t)
            else rows t)
    \<and> r \<in> set (rows (filter_failed t))
    \<and> (byzantine_impact_figure t name = Inr fig1 \<longrightarrow> r \<in> set (plotted_rows fig1))
    \<and> (networkProfile r \<noteq> None \<and> combined_figure t = Inr fig2 \<longrightarrow> r \<in> set (plotted_rows fig2))
    \<and> (networkProfile r \<noteq> None \<and> three_d_figure t = Inr fig3 \<longrightarrow> r \<in> set (plotted_rows fig3))
    \<and> (networkProfile r \<noteq> None \<and> comprehensive_figure t = Inr fig4 \<longrightarrow> r \<in> set (plotted_rows fig4))
    \<and> (normalized_scaling_lines t = Inr (d, Some p, pd, lines) \<and> networkProfile r = Some p
           \<longrightarrow> r \<in> set (concat (map artist_rows lines)))
    \<and> (heatmap_jobs t = Inr jobs \<and> (networkProfile r, Inr (Heatmap pv md sd)) \<in> set jobs
           \<and> networkProfile r \<noteq> None
           \<longrightarrow> pivot_at pv (nodeNum r) (byzantinePercentage r) \<noteq> None)"
proof -
  have 1: "rows (filter_failed t) =
           (if ''failure'' \<in> set (columns t) then filter (\<lambda>r. failure r \<noteq> Some True) (rows t)
            else rows t)"
    by (simp add: rows_filter_failed failed_def)
  from assms have r: "r \<in> set (rows (filter_failed t))" unfolding 1 by auto
  have 3: "byzantine_impact_figure t name = Inr fig1 \<longrightarrow> r \<in> set (plotted_rows fig1)"
    using impact_plotted_rows [of t name fig1] r by simp
  have 4: "networkProfile r \<noteq> None \<and> combined_figure t = Inr fig2 \<longrightarrow> r \<in> set (plotted_rows fig2)"
    using combined_plotted_rows [of t fig2] r by simp
  have 5: "networkProfile r \<noteq> None \<and> three_d_figure t = Inr fig3 \<longrightarrow> r \<in> set (plotted_rows fig3)"
    using three_d_plotted_rows [of t fig3] r by simp
  have 6: "networkProfile r \<noteq> None \<and> comprehensive_figure t = Inr fig4 \<longrightarrow> r \<in> set (plotted_rows fig4)"
    using comprehensive_plotted_rows [of t fig4] r by simp
  have 7: "normalized_scaling_lines t = Inr (d, Some p, pd, lines) \<and> networkProfile r = Some p
           \<longrightarrow> r \<in> set (concat (map artist_rows lines))"
  proof
    assume a: "normalized_scaling_lines t = Inr (d, Some p, pd, lines) \<and> networkProfile r = Some p"
    from normalized_scaling_lines_Inr [of t d "Some p" pd lines] a r
    have "\<exists>a\<in>set lines. r \<in> set (artist_rows a)" by simp
    then show "r \<in> set (concat (map artist_rows lines))" by simp
  qed
  have 8: "heatmap_jobs t = Inr jobs \<and> (networkProfile r, Inr (Heatmap pv md sd)) \<in> set jobs
           \<and> networkProfile r \<noteq> None
           \<longrightarrow> pivot_at pv (nodeNum r) (byzantinePercentage r) \<noteq> None"
  proof
    assume a: "heatmap_jobs t = Inr jobs \<and> (networkProfile r, Inr (Heatmap pv md sd)) \<in> set jobs
           \<and> networkProfile r \<noteq> None"
    then obtain q where q: "networkProfile r = Some q" by auto
    let ?ms = "filter (\<lambda>x. networkProfile x = Some q \<and> nodeNum x = nodeNum r
                 \<and> byzantinePercentage x = byzantinePercentage r) (non_failed_rows t)"
    from r q have "r \<in> set ?ms" by (simp add: rows_filter_failed_non_failed)
    then have "?ms \<noteq> []" by (rule in_set_not_Nil)
    with heatmap_pivot_at [of t jobs q pv md sd "nodeNum r" "byzantinePercentage r"] a q
    show "pivot_at pv (nodeNum r) (byzantinePercentage r) \<noteq> None"
      by (simp add: Let_def)
  qed
  from 1 r 3 4 5 6 7 8 show ?thesis by blast
qed


section \<open>A network profile whose trials all failed\<close>

text \<open>
  C6 fails on the code. A key without rows should give no series and no error, and a key
  with a row should have its series. In the aggregated table of this run the only trial
  of the network \<open>lan\<close> failed, so every key of \<open>lan\<close> is without rows after the failure
  filter, and the key of \<open>wan\<close> at ten percent has one row. \<open>plot_byzantine_impact\<close>, called
  for \<open>lan\<close> first, finds no percentage to draw and then reads the delay of the title with
  \<^verbatim>\<open>data['networkMean'].iloc[0]\<close> from the empty frame: \<open>IndexError\<close>. The exception ends
  the loop over the profiles and leaves \<open>main\<close>; the output directory stays empty, so the
  row of \<open>wan\<close> has no series in any chart.
\<close>

theorem all_failed_profile_raises:
  "key_rows failed_profile_table ''lan'' 0 = []
   \<and> key_rows failed_profile_table ''wan'' 10 = [wan_4]
   \<and> where_profile (Some ''lan'') failed_profile_table
       = Inr \<lparr>columns = all_columns, rows = [lan_8_failed]\<rparr>
   \<and> byzantine_impact_figure \<lparr>columns = all_columns, rows = [lan_8_failed]\<rparr>
         ''lan_byzantine_impact.png'' = Inl IndexError
   \<and> fst (create_byzantine_impact_plots failed_profile_world) = Inl IndexError
   \<and> fst (main failed_profile_world) = Inl IndexError
   \<and> map fst (fs (snd (main failed_profile_world)))
       = [''results'', ''results/all-experiments.csv'', ''visualizations'']"
  by code_simp

section \<open>The profile of the normalized scaling plot\<close>

lemma fastest_profile_least:
  assumes "fastest_profile d = Inr (Some p)"
  shows "Some p \<in> networkProfile ` set (rows d)"
    and "Some q \<in> networkProfile ` set (rows d) \<Longrightarrow> p \<le> q"
proof -
  let ?ps = "unique (map networkProfile (rows d))"
  from assms obtain nps where nps: "network_profiles_of d = Inr nps"
    and c: "(case nps of [] \<Rightarrow> Inl IndexError | x # _ \<Rightarrow> Inr x) = Inr (Some p)"
    unfolding fastest_profile_def and_then_eq_Inr by blast
  from c obtain rest where hd: "nps = Some p # rest" by (cases nps) auto
  have set_nps: "set nps = networkProfile ` set (rows d)"
    by (rule network_profiles_of_Inr [OF nps])
  with hd show "Some p \<in> networkProfile ` set (rows d)" by auto
  from nps have sp: "sorted_profiles ?ps = Inr nps"
    by (simp add: network_profiles_of_def col_def split: if_splits)
  have no_None: "None \<notin> set ?ps"
  proof
    assume "None \<in> set ?ps"
    with sp have "nps = ?ps" "length ?ps \<le> 1" by (auto simp: sorted_profiles_def split: if_splits)
    with hd \<open>None \<in> set ?ps\<close> show False by (cases rest) auto
  qed
  with sp have eq: "nps = map Some (sort (map the ?ps))" by (simp add: sorted_profiles_def)
  assume "Some q \<in> networkProfile ` set (rows d)"
  then have "Some q \<in> set nps" by (simp add: set_nps)
  then have q: "q \<in> set (sort (map the ?ps))" unfolding eq by auto
  from eq hd obtain rest' where s: "sort (map the ?ps) = p # rest'" by (cases "sort (map the ?ps)") auto
  have "sorted (sort (map the ?ps))" by simp
  with s q show "p \<le> q" by auto
qed

lemma map_filter_cong2:
  assumes "map f xs = map f ys" and "map g xs = map g ys"
  shows "map f (filter (\<lambda>x. P (g x)) xs) = map f (filter (\<lambda>x. P (g x)) ys)"
  using assms
proof (induction xs arbitrary: ys)
  case Nil
  then show ?case by simp
next
  case (Cons x xs)
  then obtain y ys' where ys: "ys = y # ys'" by (cases ys) auto
  with Cons.prems have "f x = f y" "g x = g y" "map f xs = map f ys'" "map g xs = map g ys'" by auto
  with Cons.IH [of ys'] ys show ?case by simp
qed

lemma fastest_profile_cong:
  assumes "columns t' = columns t" and "map networkProfile (rows t') = map networkProfile (rows t)"
    and "map failure (rows t') = map failure (rows t)"
  shows "fastest_profile (filter_failed t') = fastest_profile (filter_failed t)"
proof -
  have "map networkProfile (rows (filter_failed t')) = map networkProfile (rows (filter_failed t))"
    using assms map_filter_cong2 [OF assms(2,3), of "\<lambda>v. \<not> fillna_False v"]
    by (simp add: filter_failed_def)
  with assms(1) show ?thesis
    by (simp add: fastest_profile_def network_profiles_of_def col_def)
qed

lemma failed_profile_rows: "rows (filter_failed failed_profile_table) = [wan_4]"
  by (simp add: filter_failed_def failed_profile_table_def all_columns_def select_def
      fillna_False_def lan_8_failed_def wan_4_def)

lemma failed_profile_fastest:
  "fastest_profile (filter_failed failed_profile_table) = Inr (Some ''wan'')"
  by code_simp

lemma failed_profile_run:
  "network_profiles_of failed_profile_table = Inr [Some ''lan'', Some ''wan'']
   \<and> normalized_scaling_figure failed_profile_table = Inl (KeyError ''time_per_node'')
   \<and> fst (create_normalized_scaling_plot failed_profile_world) = Inl (KeyError ''time_per_node'')
   \<and> fs (snd (create_normalized_scaling_plot failed_profile_world)) = fs failed_profile_world"
  by code_simp

text \<open>
  C10 fails on the code. The normalized scaling plot is never rendered for a table without
  a column \<open>time_per_node\<close>: after the lines of the chosen profile are drawn,
  \<^verbatim>\<open>profile_data['time_per_node']\<close> raises \<open>KeyError\<close>, so no figure is built and no image
  written. The profile the lines are drawn for is the one whose name comes first in the
  lexicographic order among the names of the non-failed rows, not among all names in the
  data: the profiles are read after the failure filter.
\<close>

theorem normalized_plot_never_rendered:
  "(''time_per_node'' \<notin> set (columns t) \<longrightarrow> (\<forall>fig. normalized_scaling_figure t \<noteq> Inr fig))
   \<and> (normalized_scaling_lines t = Inr (d, Some p, pd, lines)
      \<longrightarrow> Some p \<in> networkProfile ` set (non_failed_rows t)
        \<and> (\<forall>q. Some q \<in> networkProfile ` set (non_failed_rows t) \<longrightarrow> p \<le> q))"
proof (intro conjI impI allI)
  fix fig
  assume "''time_per_node'' \<notin> set (columns t)"
  then obtain e where "normalized_scaling_figure t = Inl e"
    using normalized_scaling_figure_raises by blast
  then show "normalized_scaling_figure t \<noteq> Inr fig" by simp
next
  assume a: "normalized_scaling_lines t = Inr (d, Some p, pd, lines)"
  from normalized_scaling_lines_Inr [OF a]
  have d: "d = filter_failed t" and fp: "fastest_profile d = Inr (Some p)"
    by blast+
  have rd: "rows d = non_failed_rows t" by (simp add: d rows_filter_failed_non_failed)
  show "Some p \<in> networkProfile ` set (non_failed_rows t)"
    using fastest_profile_least(1) [OF fp] by (simp add: rd)
  fix q
  assume "Some q \<in> networkProfile ` set (non_failed_rows t)"
  then show "p \<le> q"
    using fastest_profile_least(2) [OF fp] by (simp add: rd)
qed

theorem normalized_plot_never_rendered_witness:
  "''time_per_node'' \<notin> set (columns failed_profile_table)
   \<and> (\<forall>fig. normalized_scaling_figure failed_profile_table \<noteq> Inr fig)
   \<and> normalized_scaling_figure failed_profile_table = Inl (KeyError ''time_per_node'')
   \<and> fst (create_normalized_scaling_plot failed_profile_world) = Inl (KeyError ''time_per_node'')
   \<and> fs (snd (create_normalized_scaling_plot failed_profile_world)) = fs failed_profile_world
   \<and> network_profiles_of failed_profile_table = Inr [Some ''lan'', Some ''wan'']
   \<and> (\<exists>d pd lines. normalized_scaling_lines failed_profile_table = Inr (d, Some ''wan'', pd, lines))
   \<and> Some ''wan'' \<in> networkProfile ` set (non_failed_rows failed_profile_table)
   \<and> Some ''lan'' \<notin> networkProfile ` set (non_failed_rows failed_profile_table)"
proof -
  have c: "''time_per_node'' \<notin> set (columns failed_profile_table)"
    "''networkProfile'' \<in> set (columns failed_profile_table)"
    "''byzantinePercentage'' \<in> set (columns failed_profile_table)"
    "''nodeNum'' \<in> set (columns failed_profile_table)"
    "''meanTime'' \<in> set (columns failed_profile_table)"
    by (simp_all add: failed_profile_table_def all_columns_def)
  have ne: "rows (filter_failed failed_profile_table) \<noteq> []"
    "\<forall>r\<in>set (rows (filter_failed failed_profile_table)). networkProfile r \<noteq> None"
    by (simp_all add: failed_profile_rows wan_4_def)
  from normalized_scaling_lines_total [OF c(2-5) ne]
  obtain p pd lines where l: "normalized_scaling_lines failed_profile_table
      = Inr (filter_failed failed_profile_table, Some p, pd, lines)"
    by blast
  from normalized_scaling_lines_Inr [OF l] failed_profile_fastest have p: "p = ''wan''"
    by simp
  note inst = normalized_plot_never_rendered
    [of failed_profile_table "filter_failed failed_profile_table" p pd lines]
  from inst c(1) have 1: "\<forall>fig. normalized_scaling_figure failed_profile_table \<noteq> Inr fig"
    by blast
  from inst l p have 2: "Some ''wan'' \<in> networkProfile ` set (non_failed_rows failed_profile_table)"
    by blast
  have 3: "Some ''lan'' \<notin> networkProfile ` set (non_failed_rows failed_profile_table)"
    using failed_profile_rows by (simp add: rows_filter_failed_non_failed [symmetric] wan_4_def)
  from l p have 4: "\<exists>d pd lines. normalized_scaling_lines failed_profile_table
      = Inr (d, Some ''wan'', pd, lines)"
    by blast
  from c(1) 1 2 3 4 failed_profile_run show ?thesis by blast
qed

text \<open>
  C2 fails on the code. Each chart function should either write its image or return early
  after a message. On the sample run \<open>create_normalized_scaling_plot\<close> does neither: the
  table is found, the lines are drawn, and then \<^verbatim>\<open>profile_data['time_per_node']\<close> raises
  \<open>KeyError\<close>, because the column was added to the sorted copy of each group only. The
  image is not written, the exception leaves \<open>main\<close>, and the three charts after it are
  never produced.
\<close>

theorem normalized_scaling_plot_raises:
  "fst (create_normalized_scaling_plot sample_world) = Inl (KeyError ''time_per_node'')
   \<and> ''No experiment data found!'' \<notin> set (stdout (snd (create_normalized_scaling_plot sample_world)))
   \<and> fst (main sample_world) = Inl (KeyError ''time_per_node'')
   \<and> map fst (fs (snd (main sample_world))) =
        [''results'', ''results/all-experiments.csv'', ''visualizations'',
         ''visualizations/wan_byzantine_impact.png'', ''visualizations/lan_byzantine_impact.png'',
         ''visualizations/combined_network_profiles.png'']"
  by code_simp

section \<open>Combining individual result files\<close>

text \<open>
  C4 fails on the code. In the fallback of the combined visualization every file without
  a \<open>networkProfile\<close> column should be tagged with the name of its file, and the comment
  above the guard says so. The guard asks in addition that the table has no
  \<open>networkMean\<close> column. The table of \<^verbatim>\<open>slow.csv\<close> has that column and no
  \<open>networkProfile\<close>: it is concatenated untagged. When it is the only file, the combined
  table has no \<open>networkProfile\<close> column and \<^verbatim>\<open>all_data['networkProfile']\<close> raises
  \<open>KeyError\<close>. Beside \<^verbatim>\<open>fast.csv\<close>, which is tagged, its row holds NaN in the new column,
  and sorting the profile names raises \<open>TypeError\<close>. No image is written in either run.
\<close>

theorem file_with_delay_is_left_untagged:
  "''networkProfile'' \<notin> set (columns slow_table)
   \<and> tag_profile ''slow.csv'' slow_table = slow_table
   \<and> fst (combine_files [''slow.csv''] \<lparr>columns = [], rows = []\<rparr> slow_world) = Inr slow_table
   \<and> fst (create_combined_visualization slow_world) = Inl (KeyError ''networkProfile'')
   \<and> fs (snd (create_combined_visualization slow_world)) = fs slow_world
   \<and> fst (combine_files [''fast.csv'', ''slow.csv''] \<lparr>columns = [], rows = []\<rparr> two_files_world)
       = Inr \<lparr>columns = [''nodeNum'', ''byzantinePercentage'', ''meanTime'', ''stdTime'',
                         ''networkProfile'', ''networkMean'', ''networkStd''],
              rows = [fast_4\<lparr>networkProfile := Some ''fast''\<rparr>, slow_16]\<rparr>
   \<and> networkProfile slow_16 = None
   \<and> fst (create_combined_visualization two_files_world) = Inl TypeError
   \<and> fs (snd (create_combined_visualization two_files_world)) = fs two_files_world"
  by code_simp

section \<open>Where images are written\<close>

lemma only_charts_refl: "only_charts w w"
  by (simp add: only_charts_def)

lemma only_charts_trans:
  assumes "only_charts w w'" "only_charts w' w''"
  shows "only_charts w w''"
  unfolding only_charts_def
proof
  fix p
  from assms(1) have a: "map_of (fs w') p = map_of (fs w) p
        \<or> (p = OUTPUT_DIR \<and> map_of (fs w') p = Some Dir)
        \<or> (\<exists>n fig. is_chart_name n \<and> p = os_path_join OUTPUT_DIR n
              \<and> map_of (fs w') p = Some (Png fig))"
    by (simp add: only_charts_def)
  from assms(2) have b: "map_of (fs w'') p = map_of (fs w') p
        \<or> (p = OUTPUT_DIR \<and> map_of (fs w'') p = Some Dir)
        \<or> (\<exists>n fig. is_chart_name n \<and> p = os_path_join OUTPUT_DIR n
              \<and> map_of (fs w'') p = Some (Png fig))"
    by (simp add: only_charts_def)
  from b show "map_of (fs w'') p = map_of (fs w) p
        \<or> (p = OUTPUT_DIR \<and> map_of (fs w'') p = Some Dir)
        \<or> (\<exists>n fig. is_chart_name n \<and> p = os_path_join OUTPUT_DIR n
              \<and> map_of (fs w'') p = Some (Png fig))"
  proof (elim disjE)
    assume "map_of (fs w'') p = map_of (fs w') p"
    with a show ?thesis by auto
  qed auto
qed

lemma writes_charts_pure: "writes_charts (pure v)"
  by (simp add: writes_charts_def pure_def only_charts_refl)

lemma writes_charts_lift: "writes_charts (lift m)"
  by (simp add: writes_charts_def lift_def only_charts_refl)

lemma writes_charts_reads: "writes_charts (\<lambda>w. lift (g w) w)"
  by (simp add: writes_charts_def lift_def only_charts_refl)

lemma writes_charts_print: "writes_charts (print msg)"
  by (simp add: writes_charts_def print_def only_charts_def)

lemma writes_charts_then_do:
  assumes "writes_charts m" "\<And>v. writes_charts (f v)"
  shows "writes_charts (then_do m f)"
  unfolding writes_charts_def
proof
  fix w
  obtain r w' where m: "m w = (r, w')" by (cases "m w")
  from assms(1) m have 1: "only_charts w w'" by (auto simp: writes_charts_def dest: spec [of _ w])
  show "only_charts w (snd (then_do m f w))"
  proof (cases r)
    case (Inl e)
    with m 1 show ?thesis by (simp add: then_do_def)
  next
    case (Inr v)
    from assms(2) [of v] have "only_charts w' (snd (f v w'))" by (simp add: writes_charts_def)
    with 1 have "only_charts w (snd (f v w'))" by (rule only_charts_trans)
    with m Inr show ?thesis by (simp add: then_do_def)
  qed
qed

lemma writes_charts_for_each_do:
  assumes "\<And>x. writes_charts (f x)"
  shows "writes_charts (for_each_do f xs)"
  by (induction xs) (simp_all add: writes_charts_pure writes_charts_then_do assms)

lemma writes_charts_option:
  assumes "writes_charts a" "\<And>x. writes_charts (f x)"
  shows "writes_charts (case v of None \<Rightarrow> a | Some x \<Rightarrow> f x)"
  using assms by (cases v) simp_all

lemma writes_charts_if:
  assumes "writes_charts a" "writes_charts b"
  shows "writes_charts (if c then a else b)"
  using assms by simp

lemma writes_charts_load_data: "writes_charts (load_data filename)"
  unfolding writes_charts_def
proof
  fix w
  show "only_charts w (snd (load_data filename w))"
    by (cases rule: load_data_cases [of filename w]) (simp_all add: only_charts_refl only_charts_def)
qed

lemma writes_charts_data_files: "writes_charts data_files"
  unfolding data_files_def by (rule writes_charts_reads)

lemma writes_charts_savefig:
  assumes "is_chart_name n"
  shows "writes_charts (savefig (os_path_join OUTPUT_DIR n) fig)"
  unfolding writes_charts_def only_charts_def
proof (intro allI)
  fix w p
  let ?w' = "snd (savefig (os_path_join OUTPUT_DIR n) fig w)"
  have "fs ?w' = fs w \<or> fs ?w' = AList.update (os_path_join OUTPUT_DIR n) (Png fig) (fs w)"
    by (simp add: savefig_def Let_def)
  then show "map_of (fs ?w') p = map_of (fs w) p
        \<or> (p = OUTPUT_DIR \<and> map_of (fs ?w') p = Some Dir)
        \<or> (\<exists>n fig. is_chart_name n \<and> p = os_path_join OUTPUT_DIR n
              \<and> map_of (fs ?w') p = Some (Png fig))"
  proof
    assume "fs ?w' = fs w"
    then show ?thesis by simp
  next
    assume u: "fs ?w' = AList.update (os_path_join OUTPUT_DIR n) (Png fig) (fs w)"
    show ?thesis
    proof (cases "p = os_path_join OUTPUT_DIR n")
      case True
      with u assms show ?thesis by (auto simp: update_conv')
    next
      case False
      with u show ?thesis by (simp add: update_conv')
    qed
  qed
qed

lemma writes_charts_ensure_output_dir: "writes_charts ensure_output_dir"
  by (auto simp: writes_charts_def only_charts_def ensure_output_dir_def os_makedirs_def
      os_path_exists_def map_add_def split: option.splits)

lemma writes_charts_plot_byzantine_impact:
  "writes_charts (plot_byzantine_impact d (profile @ ''_byzantine_impact.png''))"
  unfolding plot_byzantine_impact_def
  by (intro writes_charts_then_do writes_charts_lift writes_charts_print writes_charts_savefig)
    (simp add: is_chart_name_def endswith_def)

lemma writes_charts_combine_files: "writes_charts (combine_files files acc)"
proof (induction files arbitrary: acc)
  case Nil
  show ?case by (simp add: writes_charts_pure)
next
  case (Cons f files)
  show ?case
    by (simp del: combine_files.simps add: combine_files.simps(2) [abs_def])
      (intro writes_charts_then_do writes_charts_load_data writes_charts_option Cons.IH)
qed


lemma writes_charts_case_prod:
  assumes "\<And>a b. writes_charts (f a b)"
  shows "writes_charts (case x of (a, b) \<Rightarrow> f a b)"
  using assms by (cases x) simp

lemma is_chart_name_simps:
  "is_chart_name (profile @ ''_byzantine_impact.png'')"
  "is_chart_name (profile @ ''_heatmap.png'')"
  "is_chart_name ''combined_network_profiles.png''"
  "is_chart_name ''normalized_scaling.png''"
  "is_chart_name ''3d_visualization.png''"
  "is_chart_name ''comprehensive_visualization.png''"
  by (simp_all add: is_chart_name_def endswith_def)

lemmas writes_charts_intros =
  writes_charts_then_do writes_charts_lift writes_charts_print writes_charts_pure
  writes_charts_load_data writes_charts_data_files writes_charts_option writes_charts_if
  writes_charts_for_each_do writes_charts_case_prod writes_charts_combine_files
  writes_charts_plot_byzantine_impact writes_charts_ensure_output_dir

lemma writes_charts_create_byzantine_impact_plots: "writes_charts create_byzantine_impact_plots"
  unfolding create_byzantine_impact_plots_def by (intro writes_charts_intros)

lemma writes_charts_create_combined_visualization: "writes_charts create_combined_visualization"
  unfolding create_combined_visualization_def
  by (intro writes_charts_intros writes_charts_savefig is_chart_name_simps)

lemma writes_charts_create_normalized_scaling_plot: "writes_charts create_normalized_scaling_plot"
  unfolding create_normalized_scaling_plot_def
  by (intro writes_charts_intros writes_charts_savefig is_chart_name_simps)

lemma writes_charts_create_3d_visualization: "writes_charts create_3d_visualization"
  unfolding create_3d_visualization_def
  by (intro writes_charts_intros writes_charts_savefig is_chart_name_simps)

lemma writes_charts_create_heatmaps: "writes_charts create_heatmaps"
  unfolding create_heatmaps_def
  by (intro writes_charts_intros writes_charts_savefig is_chart_name_simps)

lemma writes_charts_create_comprehensive_visualization:
  "writes_charts create_comprehensive_visualization"
  unfolding create_comprehensive_visualization_def
  by (intro writes_charts_intros writes_charts_savefig is_chart_name_simps)

lemma writes_charts_main: "writes_charts main"
  unfolding main_def
  by (intro writes_charts_then_do writes_charts_print writes_charts_ensure_output_dir
      writes_charts_create_byzantine_impact_plots writes_charts_create_combined_visualization
      writes_charts_create_normalized_scaling_plot writes_charts_create_3d_visualization
      writes_charts_create_heatmaps writes_charts_create_comprehensive_visualization)

lemma writes_charts_visualize_results: "writes_charts visualize_results"
  unfolding visualize_results_def
  by (intro writes_charts_then_do writes_charts_ensure_output_dir writes_charts_main)

lemma chart_name_last:
  assumes "is_chart_name n"
  shows "n \<noteq> [] \<and> last n = CHR ''g''"
proof -
  have e: "n \<noteq> [] \<and> last n = last suf" if "endswith n suf" "suf \<noteq> []" for suf
  proof -
    from that(1) have "n = take (length n - length suf) n @ suf"
      by (metis append_take_drop_id endswith_def)
    with that(2) show ?thesis by (metis last_appendR append_is_Nil_conv)
  qed
  from assms consider "endswith n ''_byzantine_impact.png''" | "endswith n ''_heatmap.png''"
    | "n \<in> set [''combined_network_profiles.png'', ''normalized_scaling.png'',
                  ''3d_visualization.png'', ''comprehensive_visualization.png'']"
    unfolding is_chart_name_def by blast
  then show ?thesis
  proof cases
    case 1
    from e [OF 1] show ?thesis by simp
  next
    case 2
    from e [OF 2] show ?thesis by simp
  next
    case 3
    then have "n = ''combined_network_profiles.png'' \<or> n = ''normalized_scaling.png''
      \<or> n = ''3d_visualization.png'' \<or> n = ''comprehensive_visualization.png''"
      by simp
    then show ?thesis by (elim disjE) simp_all
  qed
qed

lemma chart_path_not_output_dir:
  assumes "is_chart_name n"
  shows "os_path_join OUTPUT_DIR n \<noteq> OUTPUT_DIR"
proof -
  from chart_name_last [OF assms] have "last (os_path_join OUTPUT_DIR n) = CHR ''g''"
    by (simp add: os_path_join_def OUTPUT_DIR_def)
  moreover have "last OUTPUT_DIR = CHR ''s''" by (simp add: OUTPUT_DIR_def)
  ultimately show ?thesis by auto
qed

lemma only_charts_output_dir:
  assumes "only_charts w w'" "map_of (fs w) OUTPUT_DIR = Some Dir"
  shows "map_of (fs w') OUTPUT_DIR = Some Dir"
proof -
  from assms(1) have "map_of (fs w') OUTPUT_DIR = map_of (fs w) OUTPUT_DIR
        \<or> (OUTPUT_DIR = OUTPUT_DIR \<and> map_of (fs w') OUTPUT_DIR = Some Dir)
        \<or> (\<exists>n fig. is_chart_name n \<and> OUTPUT_DIR = os_path_join OUTPUT_DIR n
              \<and> map_of (fs w') OUTPUT_DIR = Some (Png fig))"
    unfolding only_charts_def by (rule spec)
  with assms(2) chart_path_not_output_dir show ?thesis by metis
qed

lemma ensure_output_dir_creates:
  assumes "\<not> os_path_exists w OUTPUT_DIR"
  shows "fst (ensure_output_dir w) = Inr ()"
    and "map_of (fs (snd (ensure_output_dir w))) OUTPUT_DIR = Some Dir"
  using assms
  by (simp_all add: ensure_output_dir_def os_makedirs_def os_path_exists_def map_add_def)

text \<open>
  C8, as the code has it. A run of the result visualizer creates the output directory
  \<^verbatim>\<open>visualizations\<close> when nothing is stored at that path, and changes the file system
  nowhere else but at paths \<^verbatim>\<open>os.path.join('visualizations', name)\<close> where \<open>name\<close> is a
  chart name, a profile followed by \<^verbatim>\<open>_byzantine_impact.png\<close> or \<^verbatim>\<open>_heatmap.png\<close> or one
  of the four fixed names; what is stored there afterwards is an image. The static-figure
  generator is not covered: it writes its image into the working directory.
\<close>

theorem visualizer_writes_charts_in_output_dir:
  "(\<not> os_path_exists w OUTPUT_DIR
      \<longrightarrow> map_of (fs (snd (visualize_results w))) OUTPUT_DIR = Some Dir)
   \<and> (\<forall>p\<in>changed w (snd (visualize_results w)).
        (p = OUTPUT_DIR \<and> map_of (fs (snd (visualize_results w))) p = Some Dir)
        \<or> (\<exists>n fig. is_chart_name n \<and> p = os_path_join OUTPUT_DIR n
              \<and> map_of (fs (snd (visualize_results w))) p = Some (Png fig)))"
proof (intro conjI impI ballI)
  assume a: "\<not> os_path_exists w OUTPUT_DIR"
  obtain r w1 where 1: "ensure_output_dir w = (r, w1)" by (cases "ensure_output_dir w")
  from a 1 have r: "r = Inr ()" using ensure_output_dir_creates(1) [of w] by simp
  from 1 r have "snd (visualize_results w) = snd (main w1)"
    by (simp add: visualize_results_def then_do_def)
  moreover have "only_charts w1 (snd (main w1))"
    using writes_charts_main by (simp add: writes_charts_def)
  moreover from a 1 have "map_of (fs w1) OUTPUT_DIR = Some Dir"
    using ensure_output_dir_creates(2) [of w] by simp
  ultimately show "map_of (fs (snd (visualize_results w))) OUTPUT_DIR = Some Dir"
    using only_charts_output_dir by simp
next
  fix p
  assume "p \<in> changed w (snd (visualize_results w))"
  then have c: "map_of (fs (snd (visualize_results w))) p \<noteq> map_of (fs w) p"
    by (simp add: changed_def)
  have "only_charts w (snd (visualize_results w))"
    using writes_charts_visualize_results by (simp add: writes_charts_def)
  then have "map_of (fs (snd (visualize_results w))) p = map_of (fs w) p
        \<or> (p = OUTPUT_DIR \<and> map_of (fs (snd (visualize_results w))) p = Some Dir)
        \<or> (\<exists>n fig. is_chart_name n \<and> p = os_path_join OUTPUT_DIR n
              \<and> map_of (fs (snd (visualize_results w))) p = Some (Png fig))"
    unfolding only_charts_def by (rule spec)
  with c show "(p = OUTPUT_DIR \<and> map_of (fs (snd (visualize_results w))) p = Some Dir)
        \<or> (\<exists>n fig. is_chart_name n \<and> p = os_path_join OUTPUT_DIR n
              \<and> map_of (fs (snd (visualize_results w))) p = Some (Png fig))"
    by blast
qed

lemma sample_run_files:
  "map fst (fs (snd (visualize_results sample_world)))
     = [''results'', ''results/all-experiments.csv'', ''visualizations'',
        ''visualizations/wan_byzantine_impact.png'', ''visualizations/lan_byzantine_impact.png'',
        ''visualizations/combined_network_profiles.png'']"
  by code_simp

theorem visualizer_writes_charts_in_output_dir_witness:
  "\<not> os_path_exists sample_world OUTPUT_DIR
   \<and> map_of (fs (snd (visualize_results sample_world))) OUTPUT_DIR = Some Dir
   \<and> ''visualizations/lan_byzantine_impact.png'' \<in> changed sample_world (snd (visualize_results sample_world))
   \<and> (\<exists>n fig. is_chart_name n \<and> ''visualizations/lan_byzantine_impact.png'' = os_path_join OUTPUT_DIR n
        \<and> map_of (fs (snd (visualize_results sample_world))) ''visualizations/lan_byzantine_impact.png''
            = Some (Png fig))"
proof -
  let ?p = "''visualizations/lan_byzantine_impact.png''"
  let ?w' = "snd (visualize_results sample_world)"
  have a: "\<not> os_path_exists sample_world OUTPUT_DIR"
    by (simp add: os_path_exists_def sample_world_def OUTPUT_DIR_def)
  have "?p \<in> fst ` set (fs ?w')" unfolding set_map [symmetric] sample_run_files by simp
  then have "map_of (fs ?w') ?p \<noteq> None" by (simp add: map_of_eq_None_iff)
  moreover have "map_of (fs sample_world) ?p = None" by (simp add: sample_world_def)
  ultimately have c: "?p \<in> changed sample_world ?w'" by (simp add: changed_def)
  have n: "?p \<noteq> OUTPUT_DIR" by (simp add: OUTPUT_DIR_def)
  note inst = visualizer_writes_charts_in_output_dir [of sample_world]
  from inst a have d: "map_of (fs ?w') OUTPUT_DIR = Some Dir" by blast
  from inst c have "(?p = OUTPUT_DIR \<and> map_of (fs ?w') ?p = Some Dir)
        \<or> (\<exists>n fig. is_chart_name n \<and> ?p = os_path_join OUTPUT_DIR n
              \<and> map_of (fs ?w') ?p = Some (Png fig))" by blast
  with n have "\<exists>n fig. is_chart_name n \<and> ?p = os_path_join OUTPUT_DIR n
              \<and> map_of (fs ?w') ?p = Some (Png fig)" by blast
  with a d c show ?thesis by blast
qed

text \<open>
  C8 as the spec states it fails for the static-figure generator: started in an empty
  working directory it writes \<^verbatim>\<open>updated_fig7_with_ssb_babble.png\<close> there, a path without
  a directory part, and no \<^verbatim>\<open>visualizations\<close> directory exists afterwards.
\<close>

theorem static_figure_in_working_directory_counterexample:
  "static_figure \<lparr>fs = [], stdout = []\<rparr>
     = (Inr (), \<lparr>fs = [(''updated_fig7_with_ssb_babble.png'', Png (BarChart bars))], stdout = []\<rparr>)
   \<and> os_path_dirname ''updated_fig7_with_ssb_babble.png'' = []
   \<and> \<not> os_path_exists (snd (static_figure \<lparr>fs = [], stdout = []\<rparr>)) OUTPUT_DIR
   \<and> \<not> is_chart_name ''updated_fig7_with_ssb_babble.png''"
  by (simp add: static_figure_def savefig_def os_path_dirname_def os_path_exists_def
      OUTPUT_DIR_def is_chart_name_def endswith_def Let_def)

section \<open>The data loader\<close>

text \<open>
  C7. For every filename, \<open>load_data\<close> returns the parsed table when a CSV file is stored
  under that name in the results directory, and returns \<open>None\<close> when nothing is stored
  there: it prints a warning, raises nothing and leaves the file system as it was, so the
  caller decides how to go on.
\<close>

theorem load_data_found_or_None:
  "(map_of (fs w) (os_path_join RESULTS_DIR filename) = Some (Csv t)
      \<longrightarrow> load_data filename w = (Inr (Some t), w))
   \<and> (map_of (fs w) (os_path_join RESULTS_DIR filename) = None
      \<longrightarrow> (\<exists>w'. load_data filename w = (Inr None, w') \<and> fs w' = fs w \<and> stdout w' \<noteq> stdout w))"
  by (simp add: load_data_def os_path_exists_def read_csv_def print_def then_do_def pure_def
      lift_def Let_def)

theorem load_data_found_or_None_witness:
  "map_of (fs sample_world) (os_path_join RESULTS_DIR ''all-experiments.csv'') = Some (Csv sample_table)
   \<and> load_data ''all-experiments.csv'' sample_world = (Inr (Some sample_table), sample_world)
   \<and> map_of (fs sample_world) (os_path_join RESULTS_DIR ''lan.csv'') = None
   \<and> (\<exists>w'. load_data ''lan.csv'' sample_world = (Inr None, w') \<and> fs w' = fs sample_world)"
  using load_data_found_or_None [of sample_world "''all-experiments.csv''" sample_table]
    load_data_found_or_None [of sample_world "''lan.csv''"]
  by (auto simp: sample_world_def os_path_join_def RESULTS_DIR_def)

section \<open>The bars of the static figure\<close>

lemma bars_yerr: "map yerr bars = concat (map (column std_data) [0..<6])"
  and bars_len: "length bars = 54"
  by (simp_all add: bars_def ax_bar_def f_values_def column_def std_data_def data_def x_arr_def
      protocols_def ssb_babble_stds_def ssb_babble_means_def colors_def width_def upt_rec)

text \<open>
  C5. On the arrays written into the script (nine protocols, six fault counts) the figure
  has exactly 54 bars, and for every protocol \<open>p\<close> and fault count \<open>f\<close> the error bar of
  that bar is the entry \<open>std_data[p][f]\<close> of the standard-deviation table, which is not
  negative.
\<close>

theorem static_figure_bars:
  "length protocols = 9 \<and> length f_values = 6 \<and> length bars = 54
   \<and> (\<forall>p<length protocols. \<forall>f<length f_values.
         yerr (bar_of p f) = std_data ! p ! f \<and> 0 \<le> yerr (bar_of p f))"
proof -
  have len: "length protocols = 9" "length f_values = 6"
    by (simp_all add: protocols_def f_values_def)
  have "yerr (bar_of p f) = std_data ! p ! f \<and> 0 \<le> yerr (bar_of p f)" if "p < 9" "f < 6" for p f
  proof -
    have "f * 9 + p < length bars" using that by (simp add: bars_len)
    then have "yerr (bar_of p f) = map yerr bars ! (f * 9 + p)"
      by (simp add: bar_of_def len)
    also have "\<dots> = concat (map (column std_data) [0..<6]) ! (f * 9 + p)"
      by (simp add: bars_yerr)
    finally have eq: "yerr (bar_of p f) = concat (map (column std_data) [0..<6]) ! (f * 9 + p)" .
    from that have "p \<in> {0,1,2,3,4,5,6,7,8}" "f \<in> {0,1,2,3,4,5}" by auto
    then show ?thesis unfolding eq
      by (auto simp: column_def std_data_def ssb_babble_stds_def upt_rec)
  qed
  then have "\<forall>p<length protocols. \<forall>f<length f_values.
      yerr (bar_of p f) = std_data ! p ! f \<and> 0 \<le> yerr (bar_of p f)"
    unfolding len by blast
  with len bars_len show ?thesis by blast
qed

theorem static_figure_bars_witness:
  "8 < length protocols \<and> 5 < length f_values
   \<and> yerr (bar_of 8 5) = std_data ! 8 ! 5 \<and> std_data ! 8 ! 5 = 400 / 1000 \<and> 0 \<le> yerr (bar_of 8 5)"
  using static_figure_bars
  by (simp add: std_data_def ssb_babble_stds_def)

end
